theory Spec2Isabelle
  imports Main "HOL-Library.Word" "HOL-Library.Multiset"
begin

unbundle bit_operations_syntax

section \<open>Values shared by the SDK layers\<close>

text \<open>
  Go's \<^verbatim>\<open>interface{}\<close> values that travel in RPC parameter lists are JSON values.
  A Go \<^verbatim>\<open>map[string]interface{}\<close> literal with one key is an object with one member.
\<close>

datatype jvalue =
    JNull
  | JBool bool
  | JNum int
  | JStr string
  | JArr "jvalue list"
  | JObj "(string \<times> jvalue) list"

text \<open>
  A Go \<^verbatim>\<open>error\<close> is modelled by its message (what \<^verbatim>\<open>err.Error()\<close> returns), so that two
  errors are distinguishable exactly when the tests of the repository can tell them apart.
  \<^verbatim>\<open>errors.New(msg)\<close> is \<open>msg\<close>; \<^verbatim>\<open>errors.Wrapf(err, msg)\<close> is \<open>msg: cause\<close>.
\<close>

type_synonym error = string

definition Wrapf :: "error \<Rightarrow> string \<Rightarrow> error" where
  "Wrapf err msg = msg @ '': '' @ err"

text \<open>\<^verbatim>\<open>strings.HasPrefix(s, prefix)\<close>: byte-wise and case-sensitive.\<close>

definition HasPrefix :: "string \<Rightarrow> string \<Rightarrow> bool" where
  "HasPrefix s p = (length p \<le> length s \<and> take (length p) s = p)"

section \<open>The API layer (src/api/api.go)\<close>

text \<open>
  \<^verbatim>\<open>type API struct { url string; maxRetry int; seqNo int }\<close>.
  \<open>seqNo\<close> is a Go \<^verbatim>\<open>int\<close>, 64 bits wide on the platforms the SDK targets; \<^verbatim>\<open>a.seqNo++\<close>
  wraps around.
\<close>

record API =
  url :: string
  maxRetry :: int
  seqNo :: "64 word"

definition NewAPI :: "string \<Rightarrow> API" where
  "NewAPI u = \<lparr>url = u, maxRetry = 5, seqNo = 0\<rparr>"

definition SetMaxRetry :: "API \<Rightarrow> int \<Rightarrow> API" where
  "SetMaxRetry a n = a\<lparr>maxRetry := n\<rparr>"

text \<open>\<^verbatim>\<open>rpc.RpcRequest{Method, Params, ID}\<close> and the response \<^verbatim>\<open>RpcResultData\<close>
  (its \<open>Error\<close> field is kept as the text \<^verbatim>\<open>%v\<close> prints, absent when nil).\<close>

record RpcRequest =
  Method :: string
  Params :: "jvalue list"
  ID :: "64 word"

record RpcResultData =
  Result :: jvalue
  Error :: "string option"

text \<open>
  The collaborators of one call, which live in the steemutil library and on the network:
  \<^item> \<open>rpc_Sign request account keys\<close> is \<^verbatim>\<open>rpc.Sign\<close>; on success it yields the
    \<^verbatim>\<open>Params.Signed\<close> part of the signed request;
  \<^item> \<open>BuildSendData url method params\<close> is \<^verbatim>\<open>jsonrpc2.NewClient(url).BuildSendData\<close>,
    yielding the bytes to send;
  \<^item> \<open>Send url data\<close> is the client's \<^verbatim>\<open>Send()\<close>, the only step that touches the network;
  \<^item> \<open>json_Marshal\<close> and \<open>json_Unmarshal\<close> are \<^verbatim>\<open>encoding/json\<close>.
\<close>

record env =
  rpc_Sign :: "RpcRequest \<Rightarrow> string \<Rightarrow> string list \<Rightarrow> error + jvalue"
  BuildSendData :: "string \<Rightarrow> string \<Rightarrow> jvalue list \<Rightarrow> error + string"
  Send :: "string \<Rightarrow> string \<Rightarrow> error + RpcResultData"
  json_Marshal :: "jvalue \<Rightarrow> error + string"
  json_Unmarshal :: "string \<Rightarrow> error + jvalue"

text \<open>What a call did to the outside world, in the order it did it.\<close>

datatype event =
    Sign_called RpcRequest string "string list"
  | BuildSendData_called string string "jvalue list"
  | Send_called string string

definition validateTransportForSignedCall :: "API \<Rightarrow> error option" where
  "validateTransportForSignedCall a =
     (if \<not> HasPrefix (url a) ''http://'' \<and> \<not> HasPrefix (url a) ''https://''
      then Some ''signed calls can only be made when using HTTP transport''
      else None)"

text \<open>
  \<^verbatim>\<open>API.SignedCall\<close>. The result is the returned pair (an error or the response), the
  receiver after the call, and the trace of collaborator calls.
\<close>

definition SignedCall ::
  "env \<Rightarrow> API \<Rightarrow> string \<Rightarrow> jvalue list \<Rightarrow> string \<Rightarrow> string
     \<Rightarrow> (error + RpcResultData) \<times> API \<times> event list" where
  "SignedCall e a method params account privateKey =
     (case validateTransportForSignedCall a of
        Some err \<Rightarrow> (Inl err, a, [])
      | None \<Rightarrow>
         let a1 = a\<lparr>seqNo := seqNo a + 1\<rparr>;
             request = \<lparr>Method = method, Params = params, ID = seqNo a1\<rparr>;
             t1 = [Sign_called request account [privateKey]]
         in (case rpc_Sign e request account [privateKey] of
               Inl err \<Rightarrow>
                 (Inl (Wrapf err (''failed to sign request for method '' @ method)), a1, t1)
             | Inr signedPart \<Rightarrow>
                 let signedParams = JObj [(''__signed'', signedPart)];
                     t2 = t1 @ [BuildSendData_called (url a1) method [signedParams]]
                 in (case BuildSendData e (url a1) method [signedParams] of
                       Inl err \<Rightarrow>
                         (Inl (Wrapf err (''failed to build signed RPC data for '' @ method)),
                          a1, t2)
                     | Inr data \<Rightarrow>
                         let t3 = t2 @ [Send_called (url a1) data]
                         in (case Send e (url a1) data of
                               Inl err \<Rightarrow>
                                 (Inl (Wrapf err
                                    (''failed to send signed RPC request for '' @ method)),
                                  a1, t3)
                             | Inr rpcResponse \<Rightarrow>
                                 (case Error rpcResponse of
                                    Some rpcErr \<Rightarrow>
                                      (Inl (''signed RPC error for '' @ method @ '': '' @ rpcErr),
                                       a1, t3)
                                  | None \<Rightarrow> (Inr rpcResponse, a1, t3))))))"

text \<open>
  \<^verbatim>\<open>API.SignedCallWithResult\<close>: the decoded result replaces the caller's result object
  only when every step succeeded.
\<close>

definition SignedCallWithResult ::
  "env \<Rightarrow> API \<Rightarrow> string \<Rightarrow> jvalue list \<Rightarrow> string \<Rightarrow> string
     \<Rightarrow> (error + jvalue) \<times> API \<times> event list" where
  "SignedCallWithResult e a method params account privateKey =
     (case SignedCall e a method params account privateKey of
        (Inl err, a1, t) \<Rightarrow> (Inl err, a1, t)
      | (Inr rpcResponse, a1, t) \<Rightarrow>
          (case json_Marshal e (Result rpcResponse) of
             Inl err \<Rightarrow>
               (Inl (Wrapf err (''failed to marshal signed RPC result for '' @ method)), a1, t)
           | Inr resultBytes \<Rightarrow>
               (case json_Unmarshal e resultBytes of
                  Inl err \<Rightarrow>
                    (Inl (Wrapf err (''failed to unmarshal signed RPC result for '' @ method)),
                     a1, t)
                | Inr v \<Rightarrow> (Inr v, a1, t))))"

section \<open>The client layer (src/unnamed/part_002)\<close>

text \<open>
  \<^verbatim>\<open>type Client struct { Url string; MaxRetry int; AccountName string;
  Wifs map[string]*wif.PrivateKey }\<close>, for any representation \<open>'k\<close> of a private key.
\<close>

record 'k Client =
  Url :: string
  MaxRetry :: int
  AccountName :: string
  Wifs :: "string \<rightharpoonup> 'k"

text \<open>
  Modelled from the spec: the package \<^verbatim>\<open>consts\<close> that declares the four key-type constants is
  not under src/. The spec (KeyEntry) fixes the closed set of roles owner, active, posting and
  memo, and src/client/client_test.go imports one key under each of these four names.
\<close>

definition ACTIVE_KEY :: string where "ACTIVE_KEY = ''active''"
definition POSTING_KEY :: string where "POSTING_KEY = ''posting''"
definition OWNER_KEY :: string where "OWNER_KEY = ''owner''"
definition MEMO_KEY :: string where "MEMO_KEY = ''memo''"

definition checkKeyType :: "string \<Rightarrow> bool" where
  "checkKeyType keyType =
     (if keyType = ACTIVE_KEY then True
      else if keyType = POSTING_KEY then True
      else if keyType = OWNER_KEY then True
      else if keyType = MEMO_KEY then True
      else False)"

definition GetAPI :: "'k Client \<Rightarrow> API" where
  "GetAPI c = SetMaxRetry (NewAPI (Url c)) (MaxRetry c)"

text \<open>
  \<^verbatim>\<open>Client.SignedCall\<close> and \<^verbatim>\<open>Client.SignedCallWithResult\<close>. \<open>ToWif\<close> is the library's
  \<^verbatim>\<open>PrivateKey.ToWif\<close>. The API instance is created for the call and dropped after it, so
  the result is the returned value and the trace.
\<close>

definition Client_SignedCall ::
  "env \<Rightarrow> ('k \<Rightarrow> string) \<Rightarrow> 'k Client \<Rightarrow> string \<Rightarrow> jvalue list \<Rightarrow> string
     \<Rightarrow> (error + RpcResultData) \<times> event list" where
  "Client_SignedCall e ToWif c method params keyType =
     (if AccountName c = [] then (Inl ''account name not set'', [])
      else if \<not> checkKeyType keyType then (Inl (''invalid key type: '' @ keyType), [])
      else (case Wifs c keyType of
              None \<Rightarrow>
                (Inl (''private key for type '' @ [CHR 0x27] @ keyType @ [CHR 0x27]
                        @ '' not found''), [])
            | Some privateKey \<Rightarrow>
                let privateKeyWif = ToWif privateKey;
                    api = GetAPI c
                in (case SignedCall e api method params (AccountName c) privateKeyWif of
                      (r, api1, t) \<Rightarrow> (r, t))))"

definition Client_SignedCallWithResult ::
  "env \<Rightarrow> ('k \<Rightarrow> string) \<Rightarrow> 'k Client \<Rightarrow> string \<Rightarrow> jvalue list \<Rightarrow> string
     \<Rightarrow> (error + jvalue) \<times> event list" where
  "Client_SignedCallWithResult e ToWif c method params keyType =
     (if AccountName c = [] then (Inl ''account name not set'', [])
      else if \<not> checkKeyType keyType then (Inl (''invalid key type: '' @ keyType), [])
      else (case Wifs c keyType of
              None \<Rightarrow>
                (Inl (''private key for type '' @ [CHR 0x27] @ keyType @ [CHR 0x27]
                        @ '' not found''), [])
            | Some privateKey \<Rightarrow>
                let privateKeyWif = ToWif privateKey;
                    api = GetAPI c
                in (case SignedCallWithResult e api method params (AccountName c)
                           privateKeyWif of
                      (r, api1, t) \<Rightarrow> (r, t))))"

text \<open>
  A session: the calls made one after another on one API instance. Each call meets its own
  collaborators (the network may answer differently every time).
\<close>

record call =
  call_env :: env
  call_method :: string
  call_params :: "jvalue list"
  call_account :: string
  call_privateKey :: string

fun SignedCalls :: "API \<Rightarrow> call list \<Rightarrow> API \<times> event list list" where
  "SignedCalls a [] = (a, [])"
| "SignedCalls a (c # cs) =
     (case SignedCall (call_env c) a (call_method c) (call_params c) (call_account c)
             (call_privateKey c) of
        (r, a1, t) \<Rightarrow> (case SignedCalls a1 cs of (a2, ts) \<Rightarrow> (a2, t # ts)))"

text \<open>
  The \<open>ID\<close> of every request that a trace handed to \<^verbatim>\<open>rpc.Sign\<close>. The request given to the
  JSON-RPC client for sending is built separately and receives no identifier from
  \<^verbatim>\<open>SignedCall\<close>.
\<close>

fun request_ids :: "event list \<Rightarrow> 64 word list" where
  "request_ids [] = []"
| "request_ids (Sign_called request account keys # t) = ID request # request_ids t"
| "request_ids (ev # t) = request_ids t"

text \<open>The parameter arrays a trace handed to the JSON-RPC client for sending.\<close>

fun outgoing_params :: "event list \<Rightarrow> jvalue list list" where
  "outgoing_params [] = []"
| "outgoing_params (BuildSendData_called u method params # t) = params # outgoing_params t"
| "outgoing_params (ev # t) = outgoing_params t"

section \<open>Fetching a range of blocks (src/client/client.go, src/api/api.go)\<close>

text \<open>
  \<^verbatim>\<open>type WrapBlock struct { BlockNum uint; Block *api.Block }\<close>. A pointer that may be nil is
  an \<open>option\<close>: \<open>None\<close> is nil. Block numbers are Go \<^verbatim>\<open>uint\<close>; the loops below count from
  \<open>from\<close> up to \<open>to\<close> and never pass \<open>to\<close>, so no counter wraps and \<open>nat\<close> is exact.
\<close>

record 'b WrapBlock =
  BlockNum :: nat
  Block :: "'b option"

text \<open>How a Go function call ends: it returns, it panics, or it blocks forever.\<close>

datatype 'a outcome = Returns 'a | Panics | Never_returns

text \<open>\<^verbatim>\<open>%v\<close> of an unsigned integer: its decimal digits.\<close>

function show_nat :: "nat \<Rightarrow> string" where
  "show_nat n =
     (if n < 10 then [char_of (48 + n)]
      else show_nat (n div 10) @ [char_of (48 + n mod 10)])"
  by pat_completeness auto
termination
  by (relation "measure id") auto

text \<open>
  One fetch attempt is a call of \<^verbatim>\<open>GetBlock\<close>, which returns either an error and no block or
  a block and no error. \<open>GetBlock blockNum k\<close> is the outcome of attempt number \<open>k\<close> (from 0)
  for block \<open>blockNum\<close>: it is what the node answers, an input of the model.

  \<^verbatim>\<open>Client.wrapGetBlock\<close>, the bounded retry loop. The loop state is \<open>(block, err)\<close>, both nil
  before the first attempt; the pause between attempts has no effect on the result.
\<close>

function Client_wrapGetBlock_loop ::
  "(nat \<Rightarrow> nat \<Rightarrow> error + 'b) \<Rightarrow> int \<Rightarrow> nat \<Rightarrow> int \<Rightarrow> 'b option \<times> error option
     \<Rightarrow> 'b option \<times> error option" where
  "Client_wrapGetBlock_loop GetBlock maxR blockNum i st =
     (if i < maxR then
        (case GetBlock blockNum (nat i) of
           Inr block \<Rightarrow> (Some block, None)
         | Inl err \<Rightarrow> Client_wrapGetBlock_loop GetBlock maxR blockNum (i + 1) (None, Some err))
      else st)"
  by pat_completeness auto
termination
  by (relation "measure (\<lambda>(GetBlock, maxR, blockNum, i, st). nat (maxR - i))") auto

text \<open>What the goroutine sends on the channel: nil after a failure, else the wrapped block.\<close>

definition Client_wrapGetBlock ::
  "(nat \<Rightarrow> nat \<Rightarrow> error + 'b) \<Rightarrow> int \<Rightarrow> nat \<Rightarrow> 'b WrapBlock option" where
  "Client_wrapGetBlock GetBlock maxR blockNum =
     (case Client_wrapGetBlock_loop GetBlock maxR blockNum 0 (None, None) of
        (block, Some err) \<Rightarrow> None
      | (block, None) \<Rightarrow> Some \<lparr>BlockNum = blockNum, Block = block\<rparr>)"

text \<open>
  \<^verbatim>\<open>API.wrapGetBlock\<close> of src/api/api.go retries without bound. The loop may run forever:
  \<open>None\<close> is "never sends".
\<close>

partial_function (option) API_wrapGetBlock_loop :: "(nat \<Rightarrow> error + 'b) \<Rightarrow> nat \<Rightarrow> 'b option" where
  "API_wrapGetBlock_loop attempt k =
     (case attempt k of
        Inr block \<Rightarrow> Some block
      | Inl err \<Rightarrow> API_wrapGetBlock_loop attempt (Suc k))"

definition API_wrapGetBlock ::
  "(nat \<Rightarrow> nat \<Rightarrow> error + 'b) \<Rightarrow> nat \<Rightarrow> 'b WrapBlock option" where
  "API_wrapGetBlock GetBlock blockNum =
     (case API_wrapGetBlock_loop (GetBlock blockNum) 0 of
        None \<Rightarrow> None
      | Some block \<Rightarrow> Some \<lparr>BlockNum = blockNum, Block = Some block\<rparr>)"

text \<open>
  A Go map from block numbers to pointers; reading a key that is absent yields nil.
\<close>

definition map_index :: "(nat \<rightharpoonup> 'b WrapBlock option) \<Rightarrow> nat \<Rightarrow> 'b WrapBlock option" where
  "map_index blocksMap k = (case blocksMap k of None \<Rightarrow> None | Some p \<Rightarrow> p)"

text \<open>
  The receiving loop of \<^verbatim>\<open>GetBlocks\<close>, the same text in both files. It runs \<open>to - from\<close>
  times; \<open>ch\<close> is what is still to arrive on the channel, in arrival order. Reading
  \<^verbatim>\<open>result.BlockNum\<close> through a nil pointer panics; receiving from a channel on which nothing
  more will arrive blocks forever.
\<close>

fun receive_loop ::
  "nat \<Rightarrow> 'b WrapBlock option list \<Rightarrow> (nat \<rightharpoonup> 'b WrapBlock option)
     \<Rightarrow> ((nat \<rightharpoonup> 'b WrapBlock option) + error) outcome" where
  "receive_loop 0 ch blocksMap = Returns (Inl blocksMap)"
| "receive_loop (Suc n) [] blocksMap = Never_returns"
| "receive_loop (Suc n) (None # ch) blocksMap = Panics"
| "receive_loop (Suc n) (Some result # ch) blocksMap =
     (let blocksMap1 = blocksMap(BlockNum result \<mapsto> Some result)
      in if map_index blocksMap1 (BlockNum result) = None
         then Returns (Inr (''get block {'' @ show_nat (BlockNum result) @ ''} error''
                              @ [CHR 0x0A]))
         else receive_loop n ch blocksMap1)"

text \<open>
  The body of \<^verbatim>\<open>GetBlocks\<close> after the goroutines are started, given the channel traffic.
  The returned slice holds pointers, so an entry can be nil.
\<close>

definition GetBlocks_body ::
  "nat \<Rightarrow> nat \<Rightarrow> 'b WrapBlock option list
     \<Rightarrow> ('b WrapBlock option list \<times> error option) outcome" where
  "GetBlocks_body from to ch =
     (if from \<ge> to then
        Returns ([], Some (''unexpected params {from: '' @ show_nat from @ ''}, {to: ''
                             @ show_nat to @ ''}'' @ [CHR 0x0A]))
      else
        (case receive_loop (to - from) ch Map.empty of
           Panics \<Rightarrow> Panics
         | Never_returns \<Rightarrow> Never_returns
         | Returns (Inr err) \<Rightarrow> Returns ([], Some err)
         | Returns (Inl blocksMap) \<Rightarrow> Returns (map (map_index blocksMap) [from..<to], None)))"

text \<open>
  \<^verbatim>\<open>Client.GetBlocks\<close> (bounded retries) and \<^verbatim>\<open>API.GetBlocks\<close> (unbounded retries).
  One goroutine per block number in \<open>[from, to)\<close> sends one value; \<open>arrival\<close> lists the block
  numbers in the order in which their goroutines' values reach the channel, which the
  scheduler and the network decide. A goroutine that never finishes sends nothing.
\<close>

definition Client_GetBlocks ::
  "(nat \<Rightarrow> nat \<Rightarrow> error + 'b) \<Rightarrow> int \<Rightarrow> nat \<Rightarrow> nat \<Rightarrow> nat list
     \<Rightarrow> ('b WrapBlock option list \<times> error option) outcome" where
  "Client_GetBlocks GetBlock maxR from to arrival =
     GetBlocks_body from to (map (Client_wrapGetBlock GetBlock maxR) arrival)"

definition API_GetBlocks ::
  "(nat \<Rightarrow> nat \<Rightarrow> error + 'b) \<Rightarrow> nat \<Rightarrow> nat \<Rightarrow> nat list
     \<Rightarrow> ('b WrapBlock option list \<times> error option) outcome" where
  "API_GetBlocks GetBlock from to arrival =
     GetBlocks_body from to
       (concat (map (\<lambda>blockNum. case API_wrapGetBlock GetBlock blockNum of
                                   None \<Rightarrow> []
                                 | Some w \<Rightarrow> [Some w]) arrival))"

text \<open>\<open>arrival\<close> is a possible arrival order: every started goroutine appears once.\<close>

definition arrival_order :: "nat \<Rightarrow> nat \<Rightarrow> nat list \<Rightarrow> bool" where
  "arrival_order from to arrival = (mset arrival = mset [from..<to])"

section \<open>Preparing and sending transactions (src/broadcast/broadcast.go, src/unnamed/part_008)\<close>

text \<open>
  A Go \<^verbatim>\<open>time.Time\<close> is an instant together with the location in which its wall clock is
  read. Instants and durations are counted in nanoseconds. \<^verbatim>\<open>time.Now()\<close> carries the
  machine's local location, \<^verbatim>\<open>t.UTC()\<close> is the same instant read in UTC, and \<^verbatim>\<open>t.Add(d)\<close>
  keeps the location.
\<close>

datatype Location = UTC | Local

record Time =
  instant :: int
  loc :: Location

definition Second :: int where
  "Second = 1000000000"

definition time_UTC :: "Time \<Rightarrow> Time" where
  "time_UTC t = t\<lparr>loc := UTC\<rparr>"

definition time_Add :: "Time \<Rightarrow> int \<Rightarrow> Time" where
  "time_Add t d = t\<lparr>instant := instant t + d\<rparr>"

text \<open>
  \<^verbatim>\<open>api.DynamicGlobalProperties\<close> and \<^verbatim>\<open>api.Block\<close>, with the fields the broadcast layer reads
  and \<^verbatim>\<open>transaction.Transaction\<close>. The head block number is a \<^verbatim>\<open>protocol.UInt32\<close>, a 32-bit
  unsigned integer that the code passes on unconverted. The last irreversible block number
  is a wider unsigned integer, a Go \<^verbatim>\<open>uint\<close> of 64 bits, which the code converts explicitly
  where it needs 32 bits.
  \<open>Extensions\<close> is \<open>None\<close> for a nil slice and \<open>Some []\<close> for an empty one: the two differ
  when the transaction is encoded.
\<close>

record DynamicGlobalProperties =
  HeadBlockNumber :: "32 word"
  HeadBlockId :: string
  LastIrreversibleBlockNum :: "64 word"

record ApiBlock =
  Previous :: string

record 'op Transaction =
  RefBlockNum :: "16 word"
  RefBlockPrefix :: "32 word"
  Expiration :: "Time option"
  Operations :: "'op list"
  Extensions :: "jvalue list option"
  Signatures :: "string list"

text \<open>
  Modelled from the spec: \<^verbatim>\<open>transaction.RefBlockNum\<close>, \<^verbatim>\<open>transaction.NewSignedTransaction\<close> and
  \<^verbatim>\<open>SignedTransaction.PushOperation\<close> belong to the steemutil library, which is not under src/.
  By the spec, refBlockNum is the low 16 bits of a block number (section 4.4, step 2), a
  signed transaction is the unsigned transaction together with its signatures (section 3),
  and operations are appended in caller order (section 4.4, step 5).
\<close>

definition transaction_RefBlockNum :: "32 word \<Rightarrow> 16 word" where
  "transaction_RefBlockNum blockNumber = ucast blockNumber"

definition NewSignedTransaction :: "'op Transaction \<Rightarrow> 'op Transaction" where
  "NewSignedTransaction tx = tx"

definition PushOperation :: "'op Transaction \<Rightarrow> 'op \<Rightarrow> 'op Transaction" where
  "PushOperation tx op = tx\<lparr>Operations := Operations tx @ [op]\<rparr>"

text \<open>
  The collaborators of the broadcast layer during one call:
  \<^item> \<open>GetDynamicGlobalProperties\<close> and \<open>GetBlock\<close>: what the node answers;
  \<^item> \<open>transaction_RefBlockPrefix\<close>: the library's \<^verbatim>\<open>transaction.RefBlockPrefix\<close>;
  \<^item> \<open>time_now\<close>: the instant \<^verbatim>\<open>time.Now()\<close> reads; \<open>local_offset\<close>: how far the machine's
    local wall clock is ahead of UTC at a given instant;
  \<^item> \<open>FromWif\<close>: \<^verbatim>\<open>PrivateKey.FromWif\<close>; \<open>tx_Sign\<close>: \<^verbatim>\<open>tx.Sign(keys, transaction.SteemChain)\<close>,
    which returns the transaction as it leaves it;
  \<^item> \<open>BroadcastSync\<close>: the synchronous broadcast call;
  \<^item> \<open>DEBUG\<close>: whether the environment variable of that name is set, and the three
    encoders its diagnostic output runs.
\<close>

record ('op, 'k) benv =
  GetDynamicGlobalProperties :: "error + DynamicGlobalProperties"
  GetBlock :: "nat \<Rightarrow> error + ApiBlock"
  transaction_RefBlockPrefix :: "string \<Rightarrow> error + 32 word"
  time_now :: int
  local_offset :: "int \<Rightarrow> int"
  FromWif :: "string \<Rightarrow> error + 'k"
  tx_Sign :: "'k list \<Rightarrow> 'op Transaction \<Rightarrow> error + 'op Transaction"
  BroadcastSync :: "'op Transaction \<Rightarrow> error + string"
  DEBUG :: bool
  json_MarshalIndent :: "'op Transaction \<Rightarrow> error + string"
  tx_Serialize :: "'op Transaction \<Rightarrow> error + string"
  tx_Digest :: "'op Transaction \<Rightarrow> error + string"

definition time_Now :: "('op, 'k) benv \<Rightarrow> Time" where
  "time_Now e = \<lparr>instant = time_now e, loc = Local\<rparr>"

text \<open>What the wall clock of a time value shows, as nanoseconds since the epoch date.\<close>

definition wall_clock :: "('op, 'k) benv \<Rightarrow> Time \<Rightarrow> int" where
  "wall_clock e t =
     (case loc t of UTC \<Rightarrow> instant t | Local \<Rightarrow> instant t + local_offset e (instant t))"

text \<open>
  \<^verbatim>\<open>Broadcast.prepareTransaction\<close> of src/broadcast/broadcast.go: the reference block is the
  head block.
\<close>

definition prepareTransaction_head ::
  "('op, 'k) benv \<Rightarrow> 'op list \<Rightarrow> error + 'op Transaction" where
  "prepareTransaction_head e ops =
     (if length ops = 0 then Inl ''no operations provided''
      else
        (case GetDynamicGlobalProperties e of
           Inl err \<Rightarrow> Inl (Wrapf err ''failed to get dynamic global properties'')
         | Inr dgp \<Rightarrow>
             let refBlockNum = transaction_RefBlockNum (HeadBlockNumber dgp)
             in (case transaction_RefBlockPrefix e (HeadBlockId dgp) of
                   Inl err \<Rightarrow> Inl (Wrapf err ''failed to calculate ref_block_prefix'')
                 | Inr refBlockPrefix \<Rightarrow>
                     let expiration = time_Add (time_Now e) (600 * Second);
                         tx = NewSignedTransaction
                                \<lparr>RefBlockNum = refBlockNum,
                                 RefBlockPrefix = refBlockPrefix,
                                 Expiration = Some expiration,
                                 Operations = [],
                                 Extensions = None,
                                 Signatures = []\<rparr>
                     in Inr (foldl PushOperation tx ops))))"

text \<open>
  \<^verbatim>\<open>Broadcast.prepareTransaction\<close> of src/unnamed/part_008: the reference block is the one
  before the last irreversible block, whose id is read from the \<open>previous\<close> field of the last
  irreversible block. The subtraction and the mask are computed in the width of the field;
  \<^verbatim>\<open>protocol.UInt32(...)\<close> then narrows the masked value and \<^verbatim>\<open>uint(...)\<close> keeps the full
  block number for \<^verbatim>\<open>GetBlock\<close>.
\<close>

definition zero_block_id :: string where
  "zero_block_id = ''0000000000000000000000000000000000000000''"

definition prepareTransaction_lib ::
  "('op, 'k) benv \<Rightarrow> 'op list \<Rightarrow> error + 'op Transaction" where
  "prepareTransaction_lib e ops =
     (if length ops = 0 then Inl ''no operations provided''
      else
        (case GetDynamicGlobalProperties e of
           Inl err \<Rightarrow> Inl (Wrapf err ''failed to get dynamic global properties'')
         | Inr dgp \<Rightarrow>
             let refBlockNum =
                   transaction_RefBlockNum
                     (ucast ((LastIrreversibleBlockNum dgp - 1) AND 0xFFFF) :: 32 word)
             in (case GetBlock e (unat (LastIrreversibleBlockNum dgp)) of
                   Inl err \<Rightarrow>
                     Inl (Wrapf err ''failed to get block for ref_block_prefix calculation'')
                 | Inr block \<Rightarrow>
                     let previousBlockId =
                           (if Previous block = [] then zero_block_id else Previous block)
                     in (case transaction_RefBlockPrefix e previousBlockId of
                           Inl err \<Rightarrow> Inl (Wrapf err ''failed to calculate ref_block_prefix'')
                         | Inr refBlockPrefix \<Rightarrow>
                             let expiration =
                                   time_Add (time_UTC (time_Now e)) (600 * Second);
                                 tx = NewSignedTransaction
                                        \<lparr>RefBlockNum = refBlockNum,
                                         RefBlockPrefix = refBlockPrefix,
                                         Expiration = Some expiration,
                                         Operations = [],
                                         Extensions = Some [],
                                         Signatures = []\<rparr>
                             in Inr (foldl PushOperation tx ops)))))"

text \<open>
  The loop of \<^verbatim>\<open>Send\<close> that decodes the keys. \<^verbatim>\<open>privKeys\<close> is a Go map from names to WIF
  strings, and \<^verbatim>\<open>range\<close> over a map visits its entries in an order the language leaves
  unspecified and the runtime varies from run to run. The entries are therefore given as the
  list \<open>visited\<close>, in the order in which this run's \<^verbatim>\<open>range\<close> visits them.
\<close>

fun decode_keys ::
  "(string \<Rightarrow> error + 'k) \<Rightarrow> (string \<times> string) list \<Rightarrow> 'k list \<Rightarrow> error + 'k list" where
  "decode_keys fromWif [] privKeyObjs = Inr privKeyObjs"
| "decode_keys fromWif ((name, wifStr) # visited) privKeyObjs =
     (case fromWif wifStr of
        Inl err \<Rightarrow> Inl (Wrapf err ''failed to decode WIF'')
      | Inr privKey \<Rightarrow> decode_keys fromWif visited (privKeyObjs @ [privKey]))"

text \<open>\<open>visited\<close> enumerates the map \<open>privKeys\<close>: every entry once.\<close>

definition ranges_over :: "(string \<times> string) list \<Rightarrow> (string \<rightharpoonup> string) \<Rightarrow> bool" where
  "ranges_over visited privKeys = (distinct (map fst visited) \<and> map_of visited = privKeys)"

text \<open>
  What \<^verbatim>\<open>Send\<close> hands to its collaborators, in order: the key slice and the transaction
  given to \<^verbatim>\<open>tx.Sign\<close>, and the transaction given to \<^verbatim>\<open>BroadcastSync\<close>.
\<close>

datatype ('op, 'k) bevent =
    Sign_tx_called "'k list" "'op Transaction"
  | BroadcastSync_called "'op Transaction"

fun signer_inputs :: "('op, 'k) bevent list \<Rightarrow> ('k list \<times> 'op Transaction) list" where
  "signer_inputs [] = []"
| "signer_inputs (Sign_tx_called keys tx # t) = (keys, tx) # signer_inputs t"
| "signer_inputs (ev # t) = signer_inputs t"

fun broadcast_inputs :: "('op, 'k) bevent list \<Rightarrow> 'op Transaction list" where
  "broadcast_inputs [] = []"
| "broadcast_inputs (BroadcastSync_called tx # t) = tx # broadcast_inputs t"
| "broadcast_inputs (ev # t) = broadcast_inputs t"

text \<open>
  \<^verbatim>\<open>Broadcast.Send\<close> of src/broadcast/broadcast.go. The result is the returned value and
  the trace of what was handed to the signer and to the broadcast call.
\<close>

definition Send_head ::
  "('op, 'k) benv \<Rightarrow> 'op list \<Rightarrow> (string \<times> string) list
     \<Rightarrow> (error + string) \<times> ('op, 'k) bevent list" where
  "Send_head e ops visited =
     (case prepareTransaction_head e ops of
        Inl err \<Rightarrow> (Inl (Wrapf err ''failed to prepare transaction''), [])
      | Inr tx \<Rightarrow>
          (case decode_keys (FromWif e) visited [] of
             Inl err \<Rightarrow> (Inl err, [])
           | Inr privKeyObjs \<Rightarrow>
               let t1 = [Sign_tx_called privKeyObjs tx]
               in (case tx_Sign e privKeyObjs tx of
                     Inl err \<Rightarrow> (Inl (Wrapf err ''failed to sign transaction''), t1)
                   | Inr tx1 \<Rightarrow>
                       let t2 = t1 @ [BroadcastSync_called tx1]
                       in (case BroadcastSync e tx1 of
                             Inl err \<Rightarrow> (Inl (Wrapf err ''failed to broadcast transaction''), t2)
                           | Inr result \<Rightarrow> (Inr result, t2)))))"

text \<open>
  The diagnostic block that \<^verbatim>\<open>Send\<close> of src/unnamed/part_008 runs before signing when
  \<^verbatim>\<open>DEBUG\<close> is set: the error it makes \<^verbatim>\<open>Send\<close> return, if any. Printing is not modelled.
\<close>

definition Send_debug_dump :: "('op, 'k) benv \<Rightarrow> 'op Transaction \<Rightarrow> error option" where
  "Send_debug_dump e tx =
     (if DEBUG e then
        (case json_MarshalIndent e tx of
           Inl err \<Rightarrow> Some (Wrapf err ''failed to marshal transaction to JSON'')
         | Inr txJSON \<Rightarrow>
             (case tx_Serialize e tx of
                Inl err \<Rightarrow> Some (Wrapf err ''failed to serialize transaction'')
              | Inr txBytes \<Rightarrow>
                  (case tx_Digest e tx of
                     Inl err \<Rightarrow> Some (Wrapf err ''failed to compute digest'')
                   | Inr digest \<Rightarrow> None)))
      else None)"

text \<open>
  \<^verbatim>\<open>Broadcast.Send\<close> of src/unnamed/part_008: the same steps as above, with the diagnostic
  block between preparing and decoding the keys. The diagnostic output after signing only
  prints.
\<close>

definition Send_lib ::
  "('op, 'k) benv \<Rightarrow> 'op list \<Rightarrow> (string \<times> string) list
     \<Rightarrow> (error + string) \<times> ('op, 'k) bevent list" where
  "Send_lib e ops visited =
     (case prepareTransaction_lib e ops of
        Inl err \<Rightarrow> (Inl (Wrapf err ''failed to prepare transaction''), [])
      | Inr tx \<Rightarrow>
          (case Send_debug_dump e tx of
             Some err \<Rightarrow> (Inl err, [])
           | None \<Rightarrow>
               (case decode_keys (FromWif e) visited [] of
                  Inl err \<Rightarrow> (Inl err, [])
                | Inr privKeyObjs \<Rightarrow>
                    let t1 = [Sign_tx_called privKeyObjs tx]
                    in (case tx_Sign e privKeyObjs tx of
                          Inl err \<Rightarrow> (Inl (Wrapf err ''failed to sign transaction''), t1)
                        | Inr tx1 \<Rightarrow>
                            let t2 = t1 @ [BroadcastSync_called tx1]
                            in (case BroadcastSync e tx1 of
                                  Inl err \<Rightarrow>
                                    (Inl (Wrapf err ''failed to broadcast transaction''), t2)
                                | Inr result \<Rightarrow> (Inr result, t2))))))"

section \<open>Sample inputs\<close>

text \<open>
  Concrete collaborators and inputs on which the definitions above are evaluated. In
  \<open>sample_env\<close> signing fails for the key \<open>invalid-key\<close> and the network refuses every
  connection, as in the unit tests of the API layer.
\<close>

definition sample_env :: env where
  "sample_env =
     \<lparr>rpc_Sign = (\<lambda>request account keys.
                   if keys = [''invalid-key''] then Inl ''invalid WIF''
                   else Inr (JObj [(''account'', JStr account),
                                   (''signatures'', JArr (map JStr keys))])),
      BuildSendData = (\<lambda>u method params. Inr method),
      Send = (\<lambda>u data. Inl ''connection refused''),
      json_Marshal = (\<lambda>v. Inr ''null''),
      json_Unmarshal = (\<lambda>s. Inr JNull)\<rparr>"

definition sample_call :: "string \<Rightarrow> call" where
  "sample_call key =
     \<lparr>call_env = sample_env,
      call_method = ''condenser_api.get_accounts'',
      call_params = [JArr [JStr ''testuser'']],
      call_account = ''testuser'',
      call_privateKey = key\<rparr>"

definition sample_calls :: "call list" where
  "sample_calls = [sample_call ''key-1'', sample_call ''invalid-key'', sample_call ''key-1'']"

definition sample_client :: "string Client" where
  "sample_client =
     \<lparr>Url = ''https://api.steemit.com'', MaxRetry = 5, AccountName = ''testuser'',
      Wifs = [''active'' \<mapsto> ''key-1'']\<rparr>"

text \<open>
  A node on which block 11 is never retrievable and block 12 is retrievable from the third
  attempt on; a block is represented by a number.
\<close>

definition sample_GetBlock :: "nat \<Rightarrow> nat \<Rightarrow> error + nat" where
  "sample_GetBlock blockNum k =
     (if blockNum = 11 then Inl ''timeout''
      else if blockNum = 12 \<and> k < 2 then Inl ''timeout''
      else Inr (1000 + blockNum))"

text \<open>
  A block-id decoder of the kind the library provides: the id is a string of hexadecimal
  digits, an id of fewer than eight bytes is invalid, and the prefix is the little-endian
  number in bytes 4 to 7.
\<close>

definition hex_digit :: "char \<Rightarrow> nat option" where
  "hex_digit c =
     (let n = (of_char c :: nat)
      in if 48 \<le> n \<and> n \<le> 57 then Some (n - 48)
         else if 97 \<le> n \<and> n \<le> 102 then Some (n - 87)
         else if 65 \<le> n \<and> n \<le> 70 then Some (n - 55)
         else None)"

fun hex_bytes :: "string \<Rightarrow> nat list option" where
  "hex_bytes [] = Some []"
| "hex_bytes [c] = None"
| "hex_bytes (c1 # c2 # cs) =
     (case (hex_digit c1, hex_digit c2, hex_bytes cs) of
        (Some h, Some l, Some bs) \<Rightarrow> Some ((16 * h + l) # bs)
      | _ \<Rightarrow> None)"

definition sample_RefBlockPrefix :: "string \<Rightarrow> error + 32 word" where
  "sample_RefBlockPrefix blockID =
     (case hex_bytes blockID of
        None \<Rightarrow> Inl ''failed to decode block ID''
      | Some bs \<Rightarrow>
          if length bs < 8 then Inl ''invalid block ID''
          else Inr (of_nat (bs ! 4 + 256 * bs ! 5 + 65536 * bs ! 6 + 16777216 * bs ! 7)))"

text \<open>
  A node at head block \<open>0x0123ABCD\<close> with last irreversible block \<open>0x0123ABC0\<close>, seen from a
  machine whose local wall clock is one hour ahead of UTC. Keys decode to themselves, and
  signing appends one signature per key, in the order of the keys it is given.
\<close>

definition sample_dgp :: DynamicGlobalProperties where
  "sample_dgp =
     \<lparr>HeadBlockNumber = 0x0123ABCD,
      HeadBlockId = ''0123abcd01000000aaaaaaaaaaaaaaaaaaaaaaaa'',
      LastIrreversibleBlockNum = 0x0123ABC0\<rparr>"

definition sample_benv :: "(string, string) benv" where
  "sample_benv =
     \<lparr>GetDynamicGlobalProperties = Inr sample_dgp,
      GetBlock = (\<lambda>n. if n = 0x0123ABC0
                       then Inr \<lparr>Previous = ''0123abbf02000000bbbbbbbbbbbbbbbbbbbbbbbb''\<rparr>
                       else Inl ''unknown block''),
      transaction_RefBlockPrefix = sample_RefBlockPrefix,
      time_now = 1700000000 * Second,
      local_offset = (\<lambda>t. 3600 * Second),
      FromWif = (\<lambda>wifStr. if wifStr = ''invalid-key'' then Inl ''invalid WIF'' else Inr wifStr),
      tx_Sign = (\<lambda>keys tx. Inr (tx\<lparr>Signatures := Signatures tx @ map (\<lambda>k. ''sig-'' @ k) keys\<rparr>)),
      BroadcastSync = (\<lambda>tx. Inr ''{}''),
      DEBUG = False,
      json_MarshalIndent = (\<lambda>tx. Inr ''{}''),
      tx_Serialize = (\<lambda>tx. Inr ''00''),
      tx_Digest = (\<lambda>tx. Inr ''00'')\<rparr>"

text \<open>The same node answering every block request with a block whose \<open>previous\<close> is empty.\<close>

definition sample_benv_no_previous :: "(string, string) benv" where
  "sample_benv_no_previous = sample_benv\<lparr>GetBlock := (\<lambda>n. Inr \<lparr>Previous = []\<rparr>)\<rparr>"

text \<open>
  The same node with a last irreversible block number above \<open>2^32\<close>, that is
  \<open>0x10123ABC0 = 4314082240\<close>.
\<close>

definition sample_benv_wide :: "(string, string) benv" where
  "sample_benv_wide =
     sample_benv
       \<lparr>GetDynamicGlobalProperties :=
          Inr (sample_dgp\<lparr>LastIrreversibleBlockNum := 0x10123ABC0\<rparr>),
        GetBlock := (\<lambda>n. if n = 4314082240
                          then Inr \<lparr>Previous = ''0123abbf02000000bbbbbbbbbbbbbbbbbbbbbbbb''\<rparr>
                          else Inl ''unknown block'')\<rparr>"

text \<open>A key collection with two entries.\<close>

definition sample_privKeys :: "string \<rightharpoonup> string" where
  "sample_privKeys = map_of [(''active'', ''key-a''), (''posting'', ''key-p'')]"

section \<open>Properties of signed calls\<close>

lemma SignedCall_step:
  assumes "validateTransportForSignedCall a = None"
  shows "seqNo (fst (snd (SignedCall e a method params account privateKey))) = seqNo a + 1"
    and "url (fst (snd (SignedCall e a method params account privateKey))) = url a"
    and "request_ids (snd (snd (SignedCall e a method params account privateKey))) = [seqNo a + 1]"
  using assms
  by (simp_all add: SignedCall_def Let_def split: sum.splits option.splits)

lemma validate_url_cong:
  "url a1 = url a \<Longrightarrow> validateTransportForSignedCall a1 = validateTransportForSignedCall a"
  by (simp add: validateTransportForSignedCall_def)

lemma SignedCalls_accepted:
  assumes "validateTransportForSignedCall a = None"
  shows "seqNo (fst (SignedCalls a cs)) = seqNo a + of_nat (length cs) \<and>
         map request_ids (snd (SignedCalls a cs)) =
           map (\<lambda>i. [seqNo a + of_nat (Suc i)]) [0..<length cs]"
  using assms
proof (induction cs arbitrary: a)
  case Nil
  then show ?case by simp
next
  case (Cons c cs)
  obtain r a1 t where sc:
    "SignedCall (call_env c) a (call_method c) (call_params c) (call_account c)
       (call_privateKey c) = (r, a1, t)"
    by (metis prod_cases3)
  from SignedCall_step [OF Cons.prems, of "call_env c" "call_method c" "call_params c"
      "call_account c" "call_privateKey c"] sc
  have s1: "seqNo a1 = seqNo a + 1" and u1: "url a1 = url a"
    and ids: "request_ids t = [seqNo a + 1]"
    by simp_all
  have v1: "validateTransportForSignedCall a1 = None"
    using validate_url_cong [OF u1] Cons.prems by simp
  note ih = Cons.IH [OF v1]
  obtain a2 ts where rest: "SignedCalls a1 cs = (a2, ts)"
    by (metis surj_pair)
  have m: "[0..<Suc (length cs)] = 0 # map Suc [0..<length cs]"
    by (simp add: upt_conv_Cons map_Suc_upt del: upt_Suc)
  show ?case
    using ih s1 ids
    by (simp add: sc rest m comp_def add.assoc del: upt_Suc)
qed

lemma SignedCalls_rejected:
  assumes "validateTransportForSignedCall a = Some err"
  shows "SignedCalls a cs = (a, replicate (length cs) [])"
  using assms
  by (induction cs) (simp_all add: SignedCall_def)

text \<open>
  C1, as amended. When a signed call passes the transport check and \<^verbatim>\<open>rpc.Sign\<close> succeeds, the
  parameter array handed to the JSON-RPC client is the one-element array holding the object
  \<open>{"__signed": s}\<close>, where \<open>s\<close> is the signed part that \<^verbatim>\<open>rpc.Sign\<close> returned. The original
  parameters are not elements of that array: they are passed, in order, to \<^verbatim>\<open>rpc.Sign\<close> inside
  the request, whose identifier is the incremented sequence number.
\<close>

theorem SignedCall_outgoing_params:
  assumes "validateTransportForSignedCall a = None"
    and "rpc_Sign e \<lparr>Method = method, Params = params, ID = seqNo a + 1\<rparr> account [privateKey]
           = Inr s"
  shows "outgoing_params (snd (snd (SignedCall e a method params account privateKey)))
           = [[JObj [(''__signed'', s)]]] \<and>
         hd (snd (snd (SignedCall e a method params account privateKey)))
           = Sign_called \<lparr>Method = method, Params = params, ID = seqNo a + 1\<rparr> account
               [privateKey]"
  using assms
  by (simp add: SignedCall_def Let_def split: sum.splits option.splits)

text \<open>The amended C1 on the call made by the unit tests of the API layer.\<close>

theorem SignedCall_outgoing_params_witness:
  "validateTransportForSignedCall (NewAPI ''https://api.steemit.com'') = None \<and>
   outgoing_params (snd (snd (SignedCall sample_env (NewAPI ''https://api.steemit.com'')
       ''condenser_api.get_accounts'' [JArr [JStr ''testuser'']] ''testuser'' ''key-1'')))
     = [[JObj [(''__signed'', JObj [(''account'', JStr ''testuser''),
                                    (''signatures'', JArr [JStr ''key-1''])])]]]"
  using SignedCall_outgoing_params [of "NewAPI ''https://api.steemit.com''" sample_env
      "''condenser_api.get_accounts''" "[JArr [JStr ''testuser'']]" "''testuser''" "''key-1''"
      "JObj [(''account'', JStr ''testuser''), (''signatures'', JArr [JStr ''key-1''])]"]
  by (simp add: validateTransportForSignedCall_def NewAPI_def HasPrefix_def sample_env_def)

text \<open>
  C1 as stated fails. For the parameters \<open>[["testuser"]]\<close> the outgoing array has one
  element, the \<open>__signed\<close> object; dropping that trailing object leaves the empty array and not
  the original parameters.
\<close>

theorem SignedCall_params_appended_counterexample:
  "outgoing_params (snd (snd (SignedCall sample_env (NewAPI ''https://api.steemit.com'')
       ''condenser_api.get_accounts'' [JArr [JStr ''testuser'']] ''testuser'' ''key-1'')))
     = [[JObj [(''__signed'', JObj [(''account'', JStr ''testuser''),
                                    (''signatures'', JArr [JStr ''key-1''])])]]] \<and>
   outgoing_params (snd (snd (SignedCall sample_env (NewAPI ''https://api.steemit.com'')
       ''condenser_api.get_accounts'' [JArr [JStr ''testuser'']] ''testuser'' ''key-1'')))
     \<noteq> [[JArr [JStr ''testuser'']]
          @ [JObj [(''__signed'', JObj [(''account'', JStr ''testuser''),
                                       (''signatures'', JArr [JStr ''key-1''])])]]] \<and>
   butlast [JObj [(''__signed'', JObj [(''account'', JStr ''testuser''),
                                       (''signatures'', JArr [JStr ''key-1''])])]]
     \<noteq> [JArr [JStr ''testuser'']]"
  by (simp add: SignedCall_def validateTransportForSignedCall_def NewAPI_def HasPrefix_def
      sample_env_def)

text \<open>
  C3, as amended. On an API instance whose URL passes the transport check, every call
  attempt of a session increments the sequence number exactly once (with the wrap-around of
  the machine integer), whether the attempt then succeeds or fails at signing, building,
  sending or with a node error, and attempt number \<open>i\<close> (from 0) hands exactly one request to
  \<^verbatim>\<open>rpc.Sign\<close>, whose \<open>ID\<close> is \<open>seqNo + i + 1\<close>. On an instance whose URL is rejected, a call
  attempt leaves the sequence number as it was and hands no request to \<^verbatim>\<open>rpc.Sign\<close>.
\<close>

theorem SignedCalls_sequence_numbers:
  "(validateTransportForSignedCall a = None \<longrightarrow>
      seqNo (fst (SignedCalls a cs)) = seqNo a + of_nat (length cs) \<and>
      map request_ids (snd (SignedCalls a cs)) =
        map (\<lambda>i. [seqNo a + of_nat (Suc i)]) [0..<length cs]) \<and>
   (validateTransportForSignedCall a \<noteq> None \<longrightarrow>
      fst (SignedCalls a cs) = a \<and> concat (map request_ids (snd (SignedCalls a cs))) = [])"
proof (intro conjI impI)
  assume v: "validateTransportForSignedCall a = None"
  note acc = SignedCalls_accepted [OF v, of cs]
  show "seqNo (fst (SignedCalls a cs)) = seqNo a + of_nat (length cs)"
    using acc by blast
  show "map request_ids (snd (SignedCalls a cs)) =
        map (\<lambda>i. [seqNo a + of_nat (Suc i)]) [0..<length cs]"
    using acc by blast
next
  assume "validateTransportForSignedCall a \<noteq> None"
  then obtain err where "validateTransportForSignedCall a = Some err" by auto
  then have r: "SignedCalls a cs = (a, replicate (length cs) [])"
    by (rule SignedCalls_rejected)
  show "fst (SignedCalls a cs) = a" by (simp add: r)
  show "concat (map request_ids (snd (SignedCalls a cs))) = []"
    by (simp add: r)
qed

text \<open>
  The amended C3 on a session of three calls, the second of which fails at signing, and on
  the same calls made through a WebSocket URL.
\<close>

theorem SignedCalls_sequence_numbers_witness:
  "validateTransportForSignedCall (NewAPI ''https://api.steemit.com'') = None \<and>
   seqNo (fst (SignedCalls (NewAPI ''https://api.steemit.com'') sample_calls)) = 3 \<and>
   map request_ids (snd (SignedCalls (NewAPI ''https://api.steemit.com'') sample_calls))
     = [[1], [2], [3]] \<and>
   validateTransportForSignedCall (NewAPI ''wss://api.steemit.com'') \<noteq> None \<and>
   fst (SignedCalls (NewAPI ''wss://api.steemit.com'') sample_calls)
     = NewAPI ''wss://api.steemit.com'' \<and>
   concat (map request_ids (snd (SignedCalls (NewAPI ''wss://api.steemit.com'') sample_calls)))
     = []"
  using SignedCalls_sequence_numbers [of "NewAPI ''https://api.steemit.com''" sample_calls]
    SignedCalls_sequence_numbers [of "NewAPI ''wss://api.steemit.com''" sample_calls]
  by (simp add: validateTransportForSignedCall_def NewAPI_def HasPrefix_def sample_calls_def
      upt_conv_Cons del: upt_Suc)

text \<open>
  C3 as stated fails: a call attempt on a WebSocket endpoint fails, and the sequence number is
  not incremented by it.
\<close>

theorem SignedCall_rejected_attempt_counterexample:
  "fst (SignedCall sample_env (NewAPI ''wss://api.steemit.com'') ''condenser_api.get_accounts''
          [JArr [JStr ''testuser'']] ''testuser'' ''key-1'')
     = Inl ''signed calls can only be made when using HTTP transport'' \<and>
   seqNo (fst (snd (SignedCall sample_env (NewAPI ''wss://api.steemit.com'')
          ''condenser_api.get_accounts'' [JArr [JStr ''testuser'']] ''testuser'' ''key-1'')))
     \<noteq> seqNo (NewAPI ''wss://api.steemit.com'') + 1"
  by (simp add: SignedCall_def validateTransportForSignedCall_def NewAPI_def HasPrefix_def)

text \<open>
  C4. When the configured URL starts with neither \<open>http://\<close> nor \<open>https://\<close>, a signed call
  returns the transport error, leaves the instance unchanged and has an empty trace: nothing
  was signed, built or sent. No call on an accepted URL returns an error with that message, so
  the transport error is distinguishable from every other failure.
\<close>

theorem SignedCall_rejects_non_http:
  assumes "\<not> HasPrefix (url a) ''http://''" and "\<not> HasPrefix (url a) ''https://''"
  shows "SignedCall e a method params account privateKey =
           (Inl ''signed calls can only be made when using HTTP transport'', a, []) \<and>
         (\<forall>a'. HasPrefix (url a') ''http://'' \<or> HasPrefix (url a') ''https://'' \<longrightarrow>
            fst (SignedCall e a' method params account privateKey)
              \<noteq> Inl ''signed calls can only be made when using HTTP transport'')"
  using assms
  by (simp add: SignedCall_def validateTransportForSignedCall_def Wrapf_def Let_def
      split: sum.splits option.splits)

text \<open>C4 on the WebSocket URL of the unit tests, next to the same call over HTTPS.\<close>

theorem SignedCall_rejects_non_http_witness:
  "\<not> HasPrefix ''wss://api.steemit.com'' ''http://'' \<and>
   \<not> HasPrefix ''wss://api.steemit.com'' ''https://'' \<and>
   SignedCall sample_env (NewAPI ''wss://api.steemit.com'') ''condenser_api.get_accounts''
       [JArr [JStr ''testuser'']] ''testuser'' ''key-1''
     = (Inl ''signed calls can only be made when using HTTP transport'',
        NewAPI ''wss://api.steemit.com'', []) \<and>
   fst (SignedCall sample_env (NewAPI ''https://api.steemit.com'') ''condenser_api.get_accounts''
       [JArr [JStr ''testuser'']] ''testuser'' ''key-1'')
     \<noteq> Inl ''signed calls can only be made when using HTTP transport''"
proof -
  have u: "url (NewAPI ''wss://api.steemit.com'') = ''wss://api.steemit.com''"
    by (simp add: NewAPI_def)
  have h1: "\<not> HasPrefix (url (NewAPI ''wss://api.steemit.com'')) ''http://''"
    and h2: "\<not> HasPrefix (url (NewAPI ''wss://api.steemit.com'')) ''https://''"
    by (simp_all add: u HasPrefix_def)
  have h3: "HasPrefix (url (NewAPI ''https://api.steemit.com'')) ''https://''"
    by (simp add: NewAPI_def HasPrefix_def)
  note w = SignedCall_rejects_non_http [OF h1 h2, of sample_env "''condenser_api.get_accounts''"
      "[JArr [JStr ''testuser'']]" "''testuser''" "''key-1''"]
  from w h3 have "fst (SignedCall sample_env (NewAPI ''https://api.steemit.com'')
       ''condenser_api.get_accounts'' [JArr [JStr ''testuser'']] ''testuser'' ''key-1'')
     \<noteq> Inl ''signed calls can only be made when using HTTP transport''"
    by blast
  with w h1 h2 show ?thesis by (simp add: u)
qed

section \<open>Properties of the client guards\<close>

text \<open>
  C10. \<^verbatim>\<open>Client.SignedCall\<close> and \<^verbatim>\<open>Client.SignedCallWithResult\<close> return an error with an empty
  trace (nothing signed, built or sent) when the account name is empty; otherwise when the key
  type is not one of owner, active, posting and memo; otherwise when no key is stored for the
  key type. The order of the three checks shows in which error is returned when several
  conditions hold.
\<close>

theorem Client_SignedCall_guards:
  "(AccountName c = [] \<longrightarrow>
      Client_SignedCall e ToWif c method params keyType = (Inl ''account name not set'', []) \<and>
      Client_SignedCallWithResult e ToWif c method params keyType
        = (Inl ''account name not set'', [])) \<and>
   (AccountName c \<noteq> [] \<and> keyType \<notin> {''owner'', ''active'', ''posting'', ''memo''} \<longrightarrow>
      Client_SignedCall e ToWif c method params keyType
        = (Inl (''invalid key type: '' @ keyType), []) \<and>
      Client_SignedCallWithResult e ToWif c method params keyType
        = (Inl (''invalid key type: '' @ keyType), [])) \<and>
   (AccountName c \<noteq> [] \<and> keyType \<in> {''owner'', ''active'', ''posting'', ''memo''} \<and>
    Wifs c keyType = None \<longrightarrow>
      Client_SignedCall e ToWif c method params keyType
        = (Inl (''private key for type '' @ [CHR 0x27] @ keyType @ [CHR 0x27] @ '' not found''),
           []) \<and>
      Client_SignedCallWithResult e ToWif c method params keyType
        = (Inl (''private key for type '' @ [CHR 0x27] @ keyType @ [CHR 0x27] @ '' not found''),
           []))"
  by (auto simp: Client_SignedCall_def Client_SignedCallWithResult_def checkKeyType_def
      ACTIVE_KEY_def POSTING_KEY_def OWNER_KEY_def MEMO_KEY_def)

text \<open>
  C10 on a client without account name called with an invalid key type (the first check
  wins), on a client with account name and an invalid key type, and on a client that holds
  an active key only, asked for the posting key.
\<close>

theorem Client_SignedCall_guards_witness:
  "AccountName (sample_client\<lparr>AccountName := []\<rparr>) = [] \<and>
   Client_SignedCall sample_env id (sample_client\<lparr>AccountName := []\<rparr>)
       ''condenser_api.get_accounts'' [] ''invalid_key''
     = (Inl ''account name not set'', []) \<and>
   AccountName sample_client \<noteq> [] \<and>
   ''invalid_key'' \<notin> {''owner'', ''active'', ''posting'', ''memo''} \<and>
   Client_SignedCall sample_env id sample_client ''condenser_api.get_accounts'' [] ''invalid_key''
     = (Inl ''invalid key type: invalid_key'', []) \<and>
   ''posting'' \<in> {''owner'', ''active'', ''posting'', ''memo''} \<and>
   Wifs sample_client ''posting'' = None \<and>
   Client_SignedCallWithResult sample_env id sample_client ''condenser_api.get_accounts'' []
       ''posting''
     = (Inl (''private key for type '' @ [CHR 0x27] @ ''posting'' @ [CHR 0x27] @ '' not found''),
        [])"
  using Client_SignedCall_guards [of "sample_client\<lparr>AccountName := []\<rparr>" sample_env id
      "''condenser_api.get_accounts''" "[]" "''invalid_key''"]
    Client_SignedCall_guards [of sample_client sample_env id
      "''condenser_api.get_accounts''" "[]" "''invalid_key''"]
    Client_SignedCall_guards [of sample_client sample_env id
      "''condenser_api.get_accounts''" "[]" "''posting''"]
  by (simp add: sample_client_def)


section \<open>Properties of fetching a block range\<close>

lemma Client_loop_success:
  assumes "int k < maxR" and "i \<le> int k" and "0 \<le> i" and "getBlock n k = Inr b"
  shows "\<exists>k' b'. getBlock n k' = Inr b' \<and>
           Client_wrapGetBlock_loop getBlock maxR n i st = (Some b', None)"
  using assms
proof (induction "nat (int k - i)" arbitrary: i st)
  case 0
  then have "nat i = k" by simp
  with 0 show ?case by (subst Client_wrapGetBlock_loop.simps) auto
next
  case (Suc d)
  then have lt: "i < maxR" by simp
  show ?case
  proof (cases "getBlock n (nat i)")
    case (Inr b0)
    with lt show ?thesis by (subst Client_wrapGetBlock_loop.simps) auto
  next
    case (Inl err)
    have "\<exists>k' b'. getBlock n k' = Inr b' \<and>
           Client_wrapGetBlock_loop getBlock maxR n (i + 1) (None, Some err) = (Some b', None)"
      using Suc by (intro Suc.hyps(1)) auto
    with lt Inl show ?thesis by (subst Client_wrapGetBlock_loop.simps) auto
  qed
qed

lemma Client_wrapGetBlock_success:
  assumes "int k < maxR" and "getBlock n k = Inr b"
  shows "\<exists>k' b'. getBlock n k' = Inr b' \<and>
           Client_wrapGetBlock getBlock maxR n = Some \<lparr>BlockNum = n, Block = Some b'\<rparr>"
proof -
  have "\<exists>k' b'. getBlock n k' = Inr b' \<and>
           Client_wrapGetBlock_loop getBlock maxR n 0 (None, None) = (Some b', None)"
    using assms by (intro Client_loop_success [where k = k and b = b]) auto
  then obtain k' b' where "getBlock n k' = Inr b'"
    and "Client_wrapGetBlock_loop getBlock maxR n 0 (None, None) = (Some b', None)"
    by auto
  then show ?thesis by (auto simp: Client_wrapGetBlock_def)
qed

lemma API_loop_success:
  assumes "attempt k = Inr b" and "i \<le> k"
  shows "\<exists>k' b'. attempt k' = Inr b' \<and> API_wrapGetBlock_loop attempt i = Some b'"
  using assms
proof (induction "k - i" arbitrary: i)
  case 0
  then show ?case by (subst API_wrapGetBlock_loop.simps) auto
next
  case (Suc d)
  show ?case
  proof (cases "attempt i")
    case (Inr b0)
    then show ?thesis by (subst API_wrapGetBlock_loop.simps) auto
  next
    case (Inl err)
    have "\<exists>k' b'. attempt k' = Inr b' \<and> API_wrapGetBlock_loop attempt (Suc i) = Some b'"
      using Suc by (intro Suc.hyps(1)) auto
    with Inl show ?thesis by (subst API_wrapGetBlock_loop.simps) auto
  qed
qed

lemma API_wrapGetBlock_success:
  assumes "getBlock n k = Inr b"
  shows "\<exists>k' b'. getBlock n k' = Inr b' \<and>
           API_wrapGetBlock getBlock n = Some \<lparr>BlockNum = n, Block = Some b'\<rparr>"
proof -
  from API_loop_success [of "getBlock n" k b 0, OF assms]
  obtain k' b' where "getBlock n k' = Inr b'"
    and "API_wrapGetBlock_loop (getBlock n) 0 = Some b'"
    by auto
  then show ?thesis by (auto simp: API_wrapGetBlock_def)
qed


lemma fold_store_other:
  "k \<notin> set ns \<Longrightarrow> fold (\<lambda>n m. m(n \<mapsto> Some (w n))) ns blocksMap k = blocksMap k"
  by (induction ns arbitrary: blocksMap) auto

lemma fold_store_mem:
  "k \<in> set ns \<Longrightarrow> fold (\<lambda>n m. m(n \<mapsto> Some (w n))) ns blocksMap k = Some (Some (w k))"
proof (induction ns arbitrary: blocksMap)
  case Nil
  then show ?case by simp
next
  case (Cons n ns)
  show ?case
  proof (cases "k \<in> set ns")
    case True
    then show ?thesis using Cons.IH by simp
  next
    case False
    with Cons.prems have kn: "k = n" by simp
    have "fold (\<lambda>n m. m(n \<mapsto> Some (w n))) (n # ns) blocksMap k =
            fold (\<lambda>n m. m(n \<mapsto> Some (w n))) ns (blocksMap(n \<mapsto> Some (w n))) k"
      by simp
    also have "\<dots> = (blocksMap(n \<mapsto> Some (w n))) k"
      using False by (rule fold_store_other)
    also have "\<dots> = Some (Some (w k))"
      using kn by simp
    finally show ?thesis .
  qed
qed

lemma receive_loop_all_sent:
  assumes "\<forall>n\<in>set ns. BlockNum (w n) = n"
  shows "receive_loop (length ns) (map (\<lambda>n. Some (w n)) ns) blocksMap =
           Returns (Inl (fold (\<lambda>n m. m(n \<mapsto> Some (w n))) ns blocksMap))"
  using assms
  by (induction ns arbitrary: blocksMap) (simp_all add: map_index_def)

lemma receive_loop_nil_received:
  assumes "None \<in> set ch"
  shows "receive_loop (length ch) ch blocksMap = Panics"
  using assms
proof (induction ch arbitrary: blocksMap)
  case Nil
  then show ?case by simp
next
  case (Cons r ch)
  show ?case
  proof (cases r)
    case None
    then show ?thesis by simp
  next
    case (Some result)
    with Cons.prems have "None \<in> set ch" by simp
    from Cons.IH [OF this] Some show ?thesis by (simp add: map_index_def)
  qed
qed

lemma arrival_order_length: "arrival_order from to arrival \<Longrightarrow> length arrival = to - from"
  by (metis arrival_order_def length_upt size_mset)

lemma arrival_order_set: "arrival_order from to arrival \<Longrightarrow> set arrival = {from..<to}"
  by (metis arrival_order_def set_mset_mset set_upt)

lemma GetBlocks_body_all_sent:
  assumes "from < to" and "arrival_order from to arrival"
    and "\<forall>n\<in>{from..<to}. BlockNum (w n) = n"
  shows "GetBlocks_body from to (map (\<lambda>n. Some (w n)) arrival) =
           Returns (map (\<lambda>n. Some (w n)) [from..<to], None)"
proof -
  have len: "to - from = length arrival"
    using assms(2) by (simp add: arrival_order_length)
  have st: "set arrival = {from..<to}"
    using assms(2) by (rule arrival_order_set)
  have rl: "receive_loop (to - from) (map (\<lambda>n. Some (w n)) arrival) Map.empty =
              Returns (Inl (fold (\<lambda>n m. m(n \<mapsto> Some (w n))) arrival Map.empty))"
    unfolding len using assms(3) st by (intro receive_loop_all_sent) simp
  have "map (map_index (fold (\<lambda>n m. m(n \<mapsto> Some (w n))) arrival Map.empty)) [from..<to] =
          map (\<lambda>n. Some (w n)) [from..<to]"
    using st by (simp add: map_index_def fold_store_mem)
  with rl assms(1) show ?thesis
    by (simp add: GetBlocks_body_def)
qed

lemma GetBlocks_body_nil_received:
  assumes "from < to" and "length ch = to - from" and "None \<in> set ch"
  shows "GetBlocks_body from to ch = Panics"
  using assms receive_loop_nil_received [OF assms(3), of Map.empty]
  by (simp add: GetBlocks_body_def)

text \<open>
  In general: whenever the fetch of some block of the range ultimately fails, the bounded
  \<^verbatim>\<open>GetBlocks\<close> panics. It returns neither an error nor a sequence with a missing entry.
\<close>

lemma Client_GetBlocks_failed_fetch:
  assumes "from < to" and "arrival_order from to arrival"
    and "n \<in> {from..<to}" and "Client_wrapGetBlock getBlock maxR n = None"
  shows "Client_GetBlocks getBlock maxR from to arrival = Panics"
proof -
  have "n \<in> set arrival" using assms(2,3) by (simp add: arrival_order_set)
  then have "None \<in> set (map (Client_wrapGetBlock getBlock maxR) arrival)"
    using assms(4) by force
  moreover have "length (map (Client_wrapGetBlock getBlock maxR) arrival) = to - from"
    using assms(2) by (simp add: arrival_order_length)
  ultimately show ?thesis
    using assms(1) unfolding Client_GetBlocks_def by (intro GetBlocks_body_nil_received)
qed


lemma concat_all_sent:
  "\<forall>n\<in>set ns. f n \<noteq> None \<Longrightarrow>
     concat (map (\<lambda>n. case f n of None \<Rightarrow> [] | Some w \<Rightarrow> [Some w]) ns) = map f ns"
  by (induction ns) auto

lemma GetBlocks_body_complete:
  assumes "from < to" and "arrival_order from to arrival"
    and ok: "\<forall>n\<in>{from..<to}. \<exists>k b. getBlock n k = Inr b \<and>
               f n = Some \<lparr>BlockNum = n, Block = Some b\<rparr>"
  shows "\<exists>ws. GetBlocks_body from to (map f arrival) = Returns (map Some ws, None) \<and>
           length ws = to - from \<and> map BlockNum ws = [from..<to] \<and>
           sorted_wrt (<) (map BlockNum ws) \<and>
           (\<forall>w\<in>set ws. \<exists>k b. Block w = Some b \<and> getBlock (BlockNum w) k = Inr b)"
proof -
  define w where "w n = the (f n)" for n
  have each: "\<exists>k b. getBlock n k = Inr b \<and> w n = \<lparr>BlockNum = n, Block = Some b\<rparr> \<and>
                 f n = Some (w n)"
    if "n \<in> {from..<to}" for n
  proof -
    from ok that obtain k b where "getBlock n k = Inr b"
      and "f n = Some \<lparr>BlockNum = n, Block = Some b\<rparr>"
      by blast
    then show ?thesis by (auto simp: w_def)
  qed
  have fw: "f n = Some (w n)" if "n \<in> {from..<to}" for n
    using each [OF that] by blast
  have num: "BlockNum (w n) = n" if "n \<in> {from..<to}" for n
    using each [OF that] by auto
  have blk: "\<exists>k b. Block (w n) = Some b \<and> getBlock n k = Inr b" if "n \<in> {from..<to}" for n
    using each [OF that] by auto
  have mf: "map f arrival = map (\<lambda>n. Some (w n)) arrival"
    using fw arrival_order_set [OF assms(2)] by (intro map_cong) auto
  have "\<forall>n\<in>{from..<to}. BlockNum (w n) = n"
    using num by blast
  then have r: "GetBlocks_body from to (map f arrival) =
                  Returns (map (\<lambda>n. Some (w n)) [from..<to], None)"
    unfolding mf by (rule GetBlocks_body_all_sent [OF assms(1,2)])
  have "map (\<lambda>n. BlockNum (w n)) [from..<to] = map (\<lambda>n. n) [from..<to]"
    using num by (intro map_cong) auto
  then have nums: "map BlockNum (map w [from..<to]) = [from..<to]"
    by (simp add: comp_def)
  have "GetBlocks_body from to (map f arrival) = Returns (map Some (map w [from..<to]), None)"
    using r by (simp add: comp_def)
  moreover have "length (map w [from..<to]) = to - from" by simp
  moreover have "sorted_wrt (<) (map BlockNum (map w [from..<to]))"
    unfolding nums by simp
  moreover have "\<forall>v\<in>set (map w [from..<to]). \<exists>k b. Block v = Some b \<and>
                   getBlock (BlockNum v) k = Inr b"
    using blk num by auto
  ultimately show ?thesis using nums by blast
qed

text \<open>
  C6. For every range with \<open>from < to\<close> and every order in which the results of the concurrent
  fetches arrive, if every block of the range is retrievable (some attempt for it succeeds;
  for the bounded mode, some attempt within the retry budget), then \<^verbatim>\<open>GetBlocks\<close> returns without
  error exactly \<open>to - from\<close> entries, none of them nil, whose block numbers are
  \<open>from, from + 1, \<dots>, to - 1\<close> in strictly ascending order, each carrying a block that a fetch
  for its number returned. This holds for \<^verbatim>\<open>API.GetBlocks\<close> and for \<^verbatim>\<open>Client.GetBlocks\<close>.
\<close>

theorem GetBlocks_complete_ascending:
  assumes "from < to" and "arrival_order from to arrival"
  shows "((\<forall>n\<in>{from..<to}. \<exists>k b. getBlock n k = Inr b) \<longrightarrow>
            (\<exists>ws. API_GetBlocks getBlock from to arrival = Returns (map Some ws, None) \<and>
               length ws = to - from \<and> map BlockNum ws = [from..<to] \<and>
               sorted_wrt (<) (map BlockNum ws) \<and>
               (\<forall>w\<in>set ws. \<exists>k b. Block w = Some b \<and> getBlock (BlockNum w) k = Inr b))) \<and>
         ((\<forall>n\<in>{from..<to}. \<exists>k b. int k < maxR \<and> getBlock n k = Inr b) \<longrightarrow>
            (\<exists>ws. Client_GetBlocks getBlock maxR from to arrival = Returns (map Some ws, None) \<and>
               length ws = to - from \<and> map BlockNum ws = [from..<to] \<and>
               sorted_wrt (<) (map BlockNum ws) \<and>
               (\<forall>w\<in>set ws. \<exists>k b. Block w = Some b \<and> getBlock (BlockNum w) k = Inr b)))"
proof (intro conjI impI)
  assume a: "\<forall>n\<in>{from..<to}. \<exists>k b. getBlock n k = Inr b"
  have ok: "\<forall>n\<in>{from..<to}. \<exists>k b. getBlock n k = Inr b \<and>
              API_wrapGetBlock getBlock n = Some \<lparr>BlockNum = n, Block = Some b\<rparr>"
    using a API_wrapGetBlock_success by fast
  then have "\<forall>n\<in>set arrival. API_wrapGetBlock getBlock n \<noteq> None"
    using arrival_order_set [OF assms(2)] by auto
  then have "API_GetBlocks getBlock from to arrival =
               GetBlocks_body from to (map (API_wrapGetBlock getBlock) arrival)"
    unfolding API_GetBlocks_def by (simp only: concat_all_sent)
  then show "\<exists>ws. API_GetBlocks getBlock from to arrival = Returns (map Some ws, None) \<and>
               length ws = to - from \<and> map BlockNum ws = [from..<to] \<and>
               sorted_wrt (<) (map BlockNum ws) \<and>
               (\<forall>w\<in>set ws. \<exists>k b. Block w = Some b \<and> getBlock (BlockNum w) k = Inr b)"
    using GetBlocks_body_complete [OF assms ok] by simp
next
  assume a: "\<forall>n\<in>{from..<to}. \<exists>k b. int k < maxR \<and> getBlock n k = Inr b"
  have ok: "\<forall>n\<in>{from..<to}. \<exists>k b. getBlock n k = Inr b \<and>
              Client_wrapGetBlock getBlock maxR n = Some \<lparr>BlockNum = n, Block = Some b\<rparr>"
    using a Client_wrapGetBlock_success by fast
  show "\<exists>ws. Client_GetBlocks getBlock maxR from to arrival = Returns (map Some ws, None) \<and>
               length ws = to - from \<and> map BlockNum ws = [from..<to] \<and>
               sorted_wrt (<) (map BlockNum ws) \<and>
               (\<forall>w\<in>set ws. \<exists>k b. Block w = Some b \<and> getBlock (BlockNum w) k = Inr b)"
    using GetBlocks_body_complete [OF assms ok] by (simp add: Client_GetBlocks_def)
qed

lemma sample_arrival: "arrival_order 12 15 [14, 12, 13]"
  by (simp add: arrival_order_def upt_conv_Cons del: upt_Suc)

lemma sample_retrievable:
  "\<forall>n\<in>{12..<15}. \<exists>k b. int k < 5 \<and> sample_GetBlock n k = Inr b"
  by (auto simp: sample_GetBlock_def intro!: exI [of _ 2])

text \<open>
  C6 on the range \<open>[12, 15)\<close> with the results arriving in the order 14, 12, 13 and block 12
  succeeding on its third attempt.
\<close>

theorem GetBlocks_complete_ascending_witness:
  "(12::nat) < 15 \<and> arrival_order 12 15 [14, 12, 13] \<and>
   (\<exists>ws. API_GetBlocks sample_GetBlock 12 15 [14, 12, 13] = Returns (map Some ws, None) \<and>
      length ws = 3 \<and> map BlockNum ws = [12, 13, 14]) \<and>
   (\<exists>ws. Client_GetBlocks sample_GetBlock 5 12 15 [14, 12, 13] = Returns (map Some ws, None) \<and>
      length ws = 3 \<and> map BlockNum ws = [12, 13, 14])"
proof -
  have lt: "(12::nat) < 15" by simp
  have r2: "\<forall>n\<in>{12..<15}. \<exists>k b. sample_GetBlock n k = Inr b"
    using sample_retrievable by blast
  have u: "[12..<15] = [12, 13, 14::nat]"
    by (simp add: upt_conv_Cons del: upt_Suc)
  note w = GetBlocks_complete_ascending [OF lt sample_arrival, of sample_GetBlock 5]
  from w r2 have "\<exists>ws. API_GetBlocks sample_GetBlock 12 15 [14, 12, 13]
        = Returns (map Some ws, None) \<and> length ws = 3 \<and> map BlockNum ws = [12, 13, 14]"
    unfolding u by auto
  moreover from w sample_retrievable
  have "\<exists>ws. Client_GetBlocks sample_GetBlock 5 12 15 [14, 12, 13]
        = Returns (map Some ws, None) \<and> length ws = 3 \<and> map BlockNum ws = [12, 13, 14]"
    unfolding u by auto
  ultimately show ?thesis using lt sample_arrival by blast
qed

text \<open>
  C5 fails on the code. With a retry budget of 5 and block 11 failing on every attempt, the
  goroutine for block 11 sends nil, and \<^verbatim>\<open>Client.GetBlocks(10, 12)\<close> panics on reading
  \<^verbatim>\<open>result.BlockNum\<close> through that nil pointer, whichever result arrives first. It does not
  return the error that the check on the following line was written to return.
\<close>

theorem Client_GetBlocks_nil_dereference:
  "Client_wrapGetBlock sample_GetBlock 5 11 = None \<and>
   Client_GetBlocks sample_GetBlock 5 10 12 [10, 11] = Panics \<and>
   Client_GetBlocks sample_GetBlock 5 10 12 [11, 10] = Panics"
  by (simp add: Client_GetBlocks_def GetBlocks_body_def Client_wrapGetBlock_def
      sample_GetBlock_def map_index_def numeral_2_eq_2)

section \<open>Properties of preparing and sending transactions\<close>

lemma foldl_PushOperation:
  "foldl PushOperation tx ops = tx\<lparr>Operations := Operations tx @ ops\<rparr>"
  by (induction ops arbitrary: tx) (simp_all add: PushOperation_def)

lemma unat_low16: "unat (ucast (x :: 32 word) :: 16 word) = unat x mod 65536"
  by (simp add: unsigned_ucast_eq take_bit_eq_mod)

lemma ucast_low16_wide:
  "(ucast (ucast (x AND 0xFFFF :: 64 word) :: 32 word) :: 16 word) = ucast x"
proof -
  have m: "(0xFFFF :: 64 word) = mask 16"
    by (simp add: mask_eq_exp_minus_1)
  show ?thesis
    unfolding m
    by (rule bit_word_eqI) (auto simp: bit_ucast_iff bit_and_iff bit_mask_iff)
qed

lemma unat_low16_wide:
  "unat (ucast (x - 1 :: 64 word) :: 16 word) = nat ((uint x - 1) mod 65536)"
proof -
  have "uint (ucast (x - 1 :: 64 word) :: 16 word) = uint (x - 1) mod 65536"
    by (simp add: unsigned_ucast_eq take_bit_eq_mod)
  also have "uint (x - 1) = (uint x - 1) mod 2 ^ 64"
    by (simp add: uint_word_ariths)
  also have "(uint x - 1) mod 2 ^ 64 mod 65536 = (uint x - 1) mod 65536"
    by (rule mod_mod_cancel) simp
  finally show ?thesis by (simp add: unat_eq_nat_uint)
qed

lemma sample_prefix_head:
  "sample_RefBlockPrefix ''0123abcd01000000aaaaaaaaaaaaaaaaaaaaaaaa'' = Inr 1"
  by (simp add: sample_RefBlockPrefix_def hex_digit_def)

lemma sample_prefix_previous:
  "sample_RefBlockPrefix ''0123abbf02000000bbbbbbbbbbbbbbbbbbbbbbbb'' = Inr 2"
  by (simp add: sample_RefBlockPrefix_def hex_digit_def)

lemma sample_prefix_zero: "sample_RefBlockPrefix zero_block_id = Inr 0"
  by (simp add: sample_RefBlockPrefix_def hex_digit_def zero_block_id_def)

lemma sample_prefix_empty: "sample_RefBlockPrefix [] = Inl ''invalid block ID''"
  by (simp add: sample_RefBlockPrefix_def)

lemma sample_head:
  "prepareTransaction_head sample_benv [''vote''] =
     Inr \<lparr>RefBlockNum = 43981, RefBlockPrefix = 1,
          Expiration = Some \<lparr>instant = 1700000600000000000, loc = Local\<rparr>,
          Operations = [''vote''], Extensions = None, Signatures = []\<rparr>"
  by (simp add: prepareTransaction_head_def sample_benv_def sample_dgp_def sample_prefix_head
      transaction_RefBlockNum_def NewSignedTransaction_def PushOperation_def time_Add_def
      time_Now_def Second_def)

lemma sample_lib:
  "prepareTransaction_lib sample_benv [''vote''] =
     Inr \<lparr>RefBlockNum = 43967, RefBlockPrefix = 2,
          Expiration = Some \<lparr>instant = 1700000600000000000, loc = UTC\<rparr>,
          Operations = [''vote''], Extensions = Some [], Signatures = []\<rparr>"
  by (simp add: prepareTransaction_lib_def sample_benv_def sample_dgp_def sample_prefix_previous
      transaction_RefBlockNum_def NewSignedTransaction_def PushOperation_def time_Add_def
      time_UTC_def time_Now_def Second_def)

lemma sample_lib_no_previous:
  "prepareTransaction_lib sample_benv_no_previous [''vote''] =
     Inr \<lparr>RefBlockNum = 43967, RefBlockPrefix = 0,
          Expiration = Some \<lparr>instant = 1700000600000000000, loc = UTC\<rparr>,
          Operations = [''vote''], Extensions = Some [], Signatures = []\<rparr>"
  by (simp add: prepareTransaction_lib_def sample_benv_no_previous_def sample_benv_def
      sample_dgp_def sample_prefix_zero
      transaction_RefBlockNum_def NewSignedTransaction_def PushOperation_def time_Add_def
      time_UTC_def time_Now_def Second_def)


lemma sample_lib_wide:
  "prepareTransaction_lib sample_benv_wide [''vote''] =
     Inr \<lparr>RefBlockNum = 43967, RefBlockPrefix = 2,
          Expiration = Some \<lparr>instant = 1700000600000000000, loc = UTC\<rparr>,
          Operations = [''vote''], Extensions = Some [], Signatures = []\<rparr>"
  by (simp add: prepareTransaction_lib_def sample_benv_wide_def sample_benv_def
      sample_dgp_def sample_prefix_previous
      transaction_RefBlockNum_def NewSignedTransaction_def PushOperation_def time_Add_def
      time_UTC_def time_Now_def Second_def)

lemma decode_keys_order:
  "map fromWif (map snd visited) = map Inr ks \<Longrightarrow>
     decode_keys fromWif visited acc = Inr (acc @ ks)"
proof (induction visited arbitrary: ks acc)
  case Nil
  then show ?case by simp
next
  case (Cons entry visited)
  obtain name wifStr where entry: "entry = (name, wifStr)" by (cases entry)
  from Cons.prems obtain k ks' where ks: "ks = k # ks'" and k: "fromWif wifStr = Inr k"
    and rest: "map fromWif (map snd visited) = map Inr ks'"
    by (cases ks) (auto simp: entry)
  from Cons.IH [OF rest, of "acc @ [k]"] show ?case
    by (simp add: entry ks k)
qed

lemma ranges_over_length:
  "ranges_over visited privKeys \<Longrightarrow> length visited = card (dom privKeys)"
  by (metis ranges_over_def distinct_card dom_map_of_conv_image_fst length_map list.set_map)

lemma ranges_over_unique:
  assumes "ranges_over visited privKeys" and "ranges_over visited' privKeys"
    and "card (dom privKeys) \<le> 1"
  shows "visited = visited'"
proof (cases visited)
  case Nil
  with assms(1) have "card (dom privKeys) = 0"
    using ranges_over_length by fastforce
  with assms(2) have "length visited' = 0"
    using ranges_over_length by fastforce
  with Nil show ?thesis by simp
next
  case (Cons entry rest)
  have l1: "length visited = card (dom privKeys)"
    using assms(1) by (rule ranges_over_length)
  have l2: "length visited' = card (dom privKeys)"
    using assms(2) by (rule ranges_over_length)
  from Cons l1 assms(3) have r: "rest = []" by (cases rest) auto
  with Cons l1 l2 obtain entry' where v': "visited' = [entry']"
    by (cases visited') auto
  obtain k v where e: "entry = (k, v)" by (cases entry)
  obtain k' v' where e': "entry' = (k', v')" by (cases entry')
  have "map_of [(k, v)] = map_of [(k', v')]"
    using assms(1,2) by (simp add: ranges_over_def Cons r v' e e')
  then have "k = k' \<and> v = v'"
    by (metis map_of.simps(1) map_of_Cons_code(2) option.distinct(1) option.inject)
  then show ?thesis by (simp add: Cons r v' e e')
qed

lemma Send_head_signer:
  assumes "prepareTransaction_head e ops = Inr tx"
    and "map (FromWif e) (map snd visited) = map Inr ks"
  shows "signer_inputs (snd (Send_head e ops visited)) = [(ks, tx)]"
    and "tx_Sign e ks tx = Inr tx1 \<Longrightarrow> broadcast_inputs (snd (Send_head e ops visited)) = [tx1]"
  using assms decode_keys_order [OF assms(2), of "[]"]
  by (simp_all add: Send_head_def Let_def split: sum.splits)

lemma Send_lib_signer:
  assumes "prepareTransaction_lib e ops = Inr tx"
    and "Send_debug_dump e tx = None"
    and "map (FromWif e) (map snd visited) = map Inr ks"
  shows "signer_inputs (snd (Send_lib e ops visited)) = [(ks, tx)]"
    and "tx_Sign e ks tx = Inr tx1 \<Longrightarrow> broadcast_inputs (snd (Send_lib e ops visited)) = [tx1]"
  using assms decode_keys_order [OF assms(3), of "[]"]
  by (simp_all add: Send_lib_def Let_def split: sum.splits)

text \<open>
  C2, as amended. \<^verbatim>\<open>Send\<close> calls the signer once, with the prepared transaction and with the
  decoded private keys in the order in which the run's \<^verbatim>\<open>range\<close> over the key map visits the
  entries, and broadcasts the transaction the signer returns for that key list. When the map
  holds at most one key, as in \<^verbatim>\<open>SendWith\<close> and \<^verbatim>\<open>CustomJson\<close>, the visiting order is unique, and
  two runs with the same operations, keys and collaborators give the same result and hand
  the same inputs to the signer and to the broadcast call.
\<close>

theorem Send_key_order:
  "(prepareTransaction_head e ops = Inr tx \<and>
    map (FromWif e) (map snd visited) = map Inr ks \<longrightarrow>
      signer_inputs (snd (Send_head e ops visited)) = [(ks, tx)] \<and>
      (\<forall>tx1. tx_Sign e ks tx = Inr tx1 \<longrightarrow>
         broadcast_inputs (snd (Send_head e ops visited)) = [tx1])) \<and>
   (prepareTransaction_lib e ops = Inr tx' \<and> Send_debug_dump e tx' = None \<and>
    map (FromWif e) (map snd visited) = map Inr ks \<longrightarrow>
      signer_inputs (snd (Send_lib e ops visited)) = [(ks, tx')] \<and>
      (\<forall>tx1. tx_Sign e ks tx' = Inr tx1 \<longrightarrow>
         broadcast_inputs (snd (Send_lib e ops visited)) = [tx1])) \<and>
   (ranges_over visited privKeys \<and> ranges_over visited' privKeys \<and>
    card (dom privKeys) \<le> 1 \<longrightarrow>
      Send_head e ops visited = Send_head e ops visited' \<and>
      Send_lib e ops visited = Send_lib e ops visited')"
proof (intro conjI impI allI)
  assume a: "prepareTransaction_head e ops = Inr tx \<and>
    map (FromWif e) (map snd visited) = map Inr ks"
  then show "signer_inputs (snd (Send_head e ops visited)) = [(ks, tx)]"
    by (blast intro: Send_head_signer(1))
  fix tx1 assume "tx_Sign e ks tx = Inr tx1"
  with a show "broadcast_inputs (snd (Send_head e ops visited)) = [tx1]"
    by (blast intro: Send_head_signer(2))
next
  assume a: "prepareTransaction_lib e ops = Inr tx' \<and> Send_debug_dump e tx' = None \<and>
    map (FromWif e) (map snd visited) = map Inr ks"
  then show "signer_inputs (snd (Send_lib e ops visited)) = [(ks, tx')]"
    by (blast intro: Send_lib_signer(1))
  fix tx1 assume "tx_Sign e ks tx' = Inr tx1"
  with a show "broadcast_inputs (snd (Send_lib e ops visited)) = [tx1]"
    by (blast intro: Send_lib_signer(2))
next
  assume a: "ranges_over visited privKeys \<and> ranges_over visited' privKeys \<and>
    card (dom privKeys) \<le> 1"
  then have "visited = visited'" by (blast intro: ranges_over_unique)
  then show "Send_head e ops visited = Send_head e ops visited'"
    and "Send_lib e ops visited = Send_lib e ops visited'" by simp_all
qed

text \<open>
  The amended C2 on the sample node: the two-entry map visited in the order posting, active
  (both versions of \<^verbatim>\<open>Send\<close>), and the single-entry map of \<^verbatim>\<open>SendWith\<close>.
\<close>

theorem Send_key_order_witness:
  "map (FromWif sample_benv) (map snd [(''posting'', ''key-p''), (''active'', ''key-a'')])
     = map Inr [''key-p'', ''key-a''] \<and>
   Send_debug_dump sample_benv
     \<lparr>RefBlockNum = 43967, RefBlockPrefix = 2,
      Expiration = Some \<lparr>instant = 1700000600000000000, loc = UTC\<rparr>,
      Operations = [''vote''], Extensions = Some [], Signatures = []\<rparr> = None \<and>
   signer_inputs
     (snd (Send_head sample_benv [''vote''] [(''posting'', ''key-p''), (''active'', ''key-a'')]))
     = [([''key-p'', ''key-a''],
         \<lparr>RefBlockNum = 43981, RefBlockPrefix = 1,
          Expiration = Some \<lparr>instant = 1700000600000000000, loc = Local\<rparr>,
          Operations = [''vote''], Extensions = None, Signatures = []\<rparr>)] \<and>
   broadcast_inputs
     (snd (Send_head sample_benv [''vote''] [(''posting'', ''key-p''), (''active'', ''key-a'')]))
     = [\<lparr>RefBlockNum = 43981, RefBlockPrefix = 1,
         Expiration = Some \<lparr>instant = 1700000600000000000, loc = Local\<rparr>,
         Operations = [''vote''], Extensions = None,
         Signatures = [''sig-key-p'', ''sig-key-a'']\<rparr>] \<and>
   signer_inputs
     (snd (Send_lib sample_benv [''vote''] [(''posting'', ''key-p''), (''active'', ''key-a'')]))
     = [([''key-p'', ''key-a''],
         \<lparr>RefBlockNum = 43967, RefBlockPrefix = 2,
          Expiration = Some \<lparr>instant = 1700000600000000000, loc = UTC\<rparr>,
          Operations = [''vote''], Extensions = Some [], Signatures = []\<rparr>)] \<and>
   ranges_over [(''key'', ''key-a'')] [''key'' \<mapsto> ''key-a''] \<and>
   card (dom [''key'' \<mapsto> ''key-a'']) \<le> 1 \<and>
   map (FromWif sample_benv) (map snd [(''key'', ''key-a'')]) = map Inr [''key-a''] \<and>
   signer_inputs (snd (Send_head sample_benv [''vote''] [(''key'', ''key-a'')]))
     = [([''key-a''],
         \<lparr>RefBlockNum = 43981, RefBlockPrefix = 1,
          Expiration = Some \<lparr>instant = 1700000600000000000, loc = Local\<rparr>,
          Operations = [''vote''], Extensions = None, Signatures = []\<rparr>)]"
proof -
  let ?two = "[(''posting'', ''key-p''), (''active'', ''key-a'')]"
  let ?th = "\<lparr>RefBlockNum = 43981, RefBlockPrefix = 1,
          Expiration = Some \<lparr>instant = 1700000600000000000, loc = Local\<rparr>,
          Operations = [''vote''], Extensions = None, Signatures = []\<rparr> :: string Transaction"
  let ?tl = "\<lparr>RefBlockNum = 43967, RefBlockPrefix = 2,
          Expiration = Some \<lparr>instant = 1700000600000000000, loc = UTC\<rparr>,
          Operations = [''vote''], Extensions = Some [], Signatures = []\<rparr> :: string Transaction"
  have d: "map (FromWif sample_benv) (map snd ?two) = map Inr [''key-p'', ''key-a'']"
    by (simp add: sample_benv_def)
  have dd: "Send_debug_dump sample_benv ?tl = None"
    by (simp add: Send_debug_dump_def sample_benv_def)
  have sg: "tx_Sign sample_benv [''key-p'', ''key-a''] ?th
              = Inr (?th\<lparr>Signatures := [''sig-key-p'', ''sig-key-a'']\<rparr>)"
    by (simp add: sample_benv_def)
  have r: "ranges_over [(''key'', ''key-a'')] [''key'' \<mapsto> ''key-a'']"
    by (simp add: ranges_over_def)
  have c: "card (dom [''key'' \<mapsto> ''key-a'']) \<le> 1"
    by simp
  note w = Send_key_order [where e = sample_benv and ops = "[''vote'']" and tx = ?th
      and visited = ?two and ks = "[''key-p'', ''key-a'']" and tx' = ?tl]
  note w1 = Send_key_order [where e = sample_benv and ops = "[''vote'']" and tx = ?th
      and visited = "[(''key'', ''key-a'')]" and visited' = "[(''key'', ''key-a'')]"
      and privKeys = "[''key'' \<mapsto> ''key-a'']" and ks = "[''key-a'']"]
  have d1: "map (FromWif sample_benv) (map snd [(''key'', ''key-a'')]) = map Inr [''key-a'']"
    by (simp add: sample_benv_def)
  note wh = w [THEN conjunct1, THEN mp, OF conjI [OF sample_head d]]
  note wl = w [THEN conjunct2, THEN conjunct1, THEN mp, OF conjI [OF sample_lib conjI [OF dd d]]]
  note ws = w1 [THEN conjunct2, THEN conjunct2, THEN mp, OF conjI [OF r conjI [OF r c]]]
  have 1: "signer_inputs (snd (Send_head sample_benv [''vote''] ?two))
     = [([''key-p'', ''key-a''], ?th)]"
    by (rule wh [THEN conjunct1])
  have 2: "broadcast_inputs (snd (Send_head sample_benv [''vote''] ?two))
     = [?th\<lparr>Signatures := [''sig-key-p'', ''sig-key-a'']\<rparr>]"
    by (rule wh [THEN conjunct2, THEN spec, THEN mp, OF sg])
  have 3: "signer_inputs (snd (Send_lib sample_benv [''vote''] ?two))
     = [([''key-p'', ''key-a''], ?tl)]"
    by (rule wl [THEN conjunct1])
  have 4: "signer_inputs (snd (Send_head sample_benv [''vote''] [(''key'', ''key-a'')]))
     = [([''key-a''], ?th)]"
    by (rule w1 [THEN conjunct1, THEN mp, OF conjI [OF sample_head d1], THEN conjunct1])
  have b2: "broadcast_inputs (snd (Send_head sample_benv [''vote''] ?two))
     = [\<lparr>RefBlockNum = 43981, RefBlockPrefix = 1,
         Expiration = Some \<lparr>instant = 1700000600000000000, loc = Local\<rparr>,
         Operations = [''vote''], Extensions = None,
         Signatures = [''sig-key-p'', ''sig-key-a'']\<rparr>]"
    unfolding 2 by simp
  show ?thesis
    using ws by (intro conjI) (rule d dd 1 b2 3 r c d1 4)+
qed

text \<open>
  C2 as stated fails. The same two-entry key map can be visited in two orders, and the two
  runs, with identical operations and keys, hand the keys to the signer in different orders
  and broadcast different signature lists.
\<close>

theorem Send_signature_order_counterexample:
  "ranges_over [(''active'', ''key-a''), (''posting'', ''key-p'')] sample_privKeys \<and>
   ranges_over [(''posting'', ''key-p''), (''active'', ''key-a'')] sample_privKeys \<and>
   map fst (signer_inputs
     (snd (Send_head sample_benv [''vote''] [(''active'', ''key-a''), (''posting'', ''key-p'')])))
     = [[''key-a'', ''key-p'']] \<and>
   map fst (signer_inputs
     (snd (Send_head sample_benv [''vote''] [(''posting'', ''key-p''), (''active'', ''key-a'')])))
     = [[''key-p'', ''key-a'']] \<and>
   map Signatures (broadcast_inputs
     (snd (Send_head sample_benv [''vote''] [(''active'', ''key-a''), (''posting'', ''key-p'')])))
     = [[''sig-key-a'', ''sig-key-p'']] \<and>
   map Signatures (broadcast_inputs
     (snd (Send_head sample_benv [''vote''] [(''posting'', ''key-p''), (''active'', ''key-a'')])))
     = [[''sig-key-p'', ''sig-key-a'']]"
proof -
  have "ranges_over [(''active'', ''key-a''), (''posting'', ''key-p'')] sample_privKeys"
    by (simp add: ranges_over_def sample_privKeys_def)
  moreover have "ranges_over [(''posting'', ''key-p''), (''active'', ''key-a'')] sample_privKeys"
    by (auto simp: ranges_over_def sample_privKeys_def fun_eq_iff)
  moreover have "Send_head sample_benv [''vote''] [(''active'', ''key-a''), (''posting'', ''key-p'')]
      = (Inr ''{}'',
         [Sign_tx_called [''key-a'', ''key-p'']
            \<lparr>RefBlockNum = 43981, RefBlockPrefix = 1,
             Expiration = Some \<lparr>instant = 1700000600000000000, loc = Local\<rparr>,
             Operations = [''vote''], Extensions = None, Signatures = []\<rparr>,
          BroadcastSync_called
            \<lparr>RefBlockNum = 43981, RefBlockPrefix = 1,
             Expiration = Some \<lparr>instant = 1700000600000000000, loc = Local\<rparr>,
             Operations = [''vote''], Extensions = None,
             Signatures = [''sig-key-a'', ''sig-key-p'']\<rparr>])"
    by (simp add: Send_head_def sample_head) (simp add: sample_benv_def)
  moreover have "Send_head sample_benv [''vote''] [(''posting'', ''key-p''), (''active'', ''key-a'')]
      = (Inr ''{}'',
         [Sign_tx_called [''key-p'', ''key-a'']
            \<lparr>RefBlockNum = 43981, RefBlockPrefix = 1,
             Expiration = Some \<lparr>instant = 1700000600000000000, loc = Local\<rparr>,
             Operations = [''vote''], Extensions = None, Signatures = []\<rparr>,
          BroadcastSync_called
            \<lparr>RefBlockNum = 43981, RefBlockPrefix = 1,
             Expiration = Some \<lparr>instant = 1700000600000000000, loc = Local\<rparr>,
             Operations = [''vote''], Extensions = None,
             Signatures = [''sig-key-p'', ''sig-key-a'']\<rparr>])"
    by (simp add: Send_head_def sample_head) (simp add: sample_benv_def)
  ultimately show ?thesis by simp
qed

text \<open>
  What the two versions of \<^verbatim>\<open>prepareTransaction\<close> leave in the fields that are not derived from
  the reference block. The version of src/unnamed/part_008 sets a UTC expiration and an empty
  extensions sequence; the version of src/broadcast/broadcast.go keeps the local location and
  leaves the extensions nil.
\<close>

lemma prepareTransaction_head_fields:
  assumes "prepareTransaction_head e ops = Inr tx"
  shows "Expiration tx = Some \<lparr>instant = time_now e + 600 * Second, loc = Local\<rparr>"
    and "Extensions tx = None"
    and "Operations tx = ops"
    and "ops \<noteq> []"
  using assms
  by (auto simp: prepareTransaction_head_def foldl_PushOperation NewSignedTransaction_def
      time_Add_def time_Now_def Let_def split: if_splits sum.splits)

lemma prepareTransaction_lib_fields:
  assumes "prepareTransaction_lib e ops = Inr tx"
  shows "Expiration tx = Some \<lparr>instant = time_now e + 600 * Second, loc = UTC\<rparr>"
    and "Extensions tx = Some []"
    and "Operations tx = ops"
    and "ops \<noteq> []"
  using assms
  by (auto simp: prepareTransaction_lib_def foldl_PushOperation NewSignedTransaction_def
      time_Add_def time_UTC_def time_Now_def Let_def split: if_splits sum.splits)

lemma prepareTransaction_lib_expiration_utc:
  assumes "prepareTransaction_lib e ops = Inr tx"
  shows "map_option (wall_clock e) (Expiration tx) = Some (time_now e + 600 * Second)"
  using prepareTransaction_lib_fields(1) [OF assms] by (simp add: wall_clock_def)

lemma prepareTransaction_head_expiration_local:
  assumes "prepareTransaction_head e ops = Inr tx"
  shows "map_option (wall_clock e) (Expiration tx) =
           Some (time_now e + 600 * Second + local_offset e (time_now e + 600 * Second))"
  using prepareTransaction_head_fields(1) [OF assms] by (simp add: wall_clock_def)

text \<open>
  C7 fails on \<^verbatim>\<open>prepareTransaction\<close> of src/broadcast/broadcast.go. On a machine one hour ahead
  of UTC the expiration is the instant 600 seconds from now carrying the local location, so
  its wall clock shows local time plus 600 seconds, which is 3600 seconds more than the UTC
  wall-clock time plus 600 seconds.
\<close>

theorem prepareTransaction_head_expiration_not_utc:
  "prepareTransaction_head sample_benv [''vote''] =
     Inr \<lparr>RefBlockNum = 43981, RefBlockPrefix = 1,
          Expiration = Some \<lparr>instant = 1700000600000000000, loc = Local\<rparr>,
          Operations = [''vote''], Extensions = None, Signatures = []\<rparr> \<and>
   wall_clock sample_benv \<lparr>instant = 1700000600000000000, loc = Local\<rparr> = 1700004200000000000 \<and>
   time_now sample_benv + 600 * Second = 1700000600000000000"
  by (simp add: sample_head) (simp add: wall_clock_def sample_benv_def Second_def)

text \<open>
  C8 fails on \<^verbatim>\<open>prepareTransaction\<close> of src/broadcast/broadcast.go: the transaction it returns
  has a nil \<open>Extensions\<close> field, not an empty sequence.
\<close>

theorem prepareTransaction_head_extensions_absent:
  "(case prepareTransaction_head sample_benv [''vote''] of
      Inl err \<Rightarrow> False
    | Inr tx \<Rightarrow> Extensions tx = None \<and> Extensions tx \<noteq> Some [])"
  by (simp add: sample_head)

text \<open>
  C9, as amended. For every successful \<^verbatim>\<open>prepareTransaction\<close>, \<open>refBlockNum\<close> is the low 16
  bits of the reference block number: the head block number in src/broadcast/broadcast.go,
  and the last irreversible block number minus one in src/unnamed/part_008. \<open>refBlockPrefix\<close>
  is the value \<^verbatim>\<open>transaction.RefBlockPrefix\<close> returns for the head block id, respectively for
  the \<open>previous\<close> id of the block fetched at the last irreversible block number, or for the
  all-zero id when that \<open>previous\<close> is empty.
\<close>

theorem prepareTransaction_reference_block:
  assumes "GetDynamicGlobalProperties e = Inr dgp"
  shows "(prepareTransaction_head e ops = Inr tx \<longrightarrow>
            RefBlockNum tx = ucast (HeadBlockNumber dgp) \<and>
            unat (RefBlockNum tx) = unat (HeadBlockNumber dgp) mod 65536 \<and>
            transaction_RefBlockPrefix e (HeadBlockId dgp) = Inr (RefBlockPrefix tx)) \<and>
         (prepareTransaction_lib e ops = Inr tx' \<and>
          GetBlock e (unat (LastIrreversibleBlockNum dgp)) = Inr block \<longrightarrow>
            RefBlockNum tx' = ucast (LastIrreversibleBlockNum dgp - 1) \<and>
            int (unat (RefBlockNum tx'))
              = (int (unat (LastIrreversibleBlockNum dgp)) - 1) mod 65536 \<and>
            transaction_RefBlockPrefix e
                (if Previous block = [] then zero_block_id else Previous block)
              = Inr (RefBlockPrefix tx'))"
proof (intro conjI impI)
  assume h: "prepareTransaction_head e ops = Inr tx"
  from h assms show n: "RefBlockNum tx = ucast (HeadBlockNumber dgp)"
    by (auto simp: prepareTransaction_head_def foldl_PushOperation NewSignedTransaction_def
        transaction_RefBlockNum_def Let_def split: if_splits sum.splits)
  show "unat (RefBlockNum tx) = unat (HeadBlockNumber dgp) mod 65536"
    unfolding n by (rule unat_low16)
  from h assms show "transaction_RefBlockPrefix e (HeadBlockId dgp) = Inr (RefBlockPrefix tx)"
    by (auto simp: prepareTransaction_head_def foldl_PushOperation NewSignedTransaction_def
        Let_def split: if_splits sum.splits)
next
  assume h: "prepareTransaction_lib e ops = Inr tx' \<and>
          GetBlock e (unat (LastIrreversibleBlockNum dgp)) = Inr block"
  from h assms show n: "RefBlockNum tx' = ucast (LastIrreversibleBlockNum dgp - 1)"
    by (auto simp: prepareTransaction_lib_def foldl_PushOperation NewSignedTransaction_def
        transaction_RefBlockNum_def ucast_low16_wide Let_def split: if_splits sum.splits)
  show "int (unat (RefBlockNum tx')) = (int (unat (LastIrreversibleBlockNum dgp)) - 1) mod 65536"
    unfolding n by (simp add: unat_low16_wide)
  from h assms show "transaction_RefBlockPrefix e
                (if Previous block = [] then zero_block_id else Previous block)
              = Inr (RefBlockPrefix tx')"
    by (auto simp: prepareTransaction_lib_def foldl_PushOperation NewSignedTransaction_def
        Let_def split: if_splits sum.splits)
qed

text \<open>
  The amended C9 on the sample node, for both versions, and on the node whose last
  irreversible block number is \<open>4314082240\<close>: the block fetched is number \<open>4314082240\<close> and
  \<open>refBlockNum\<close> is \<open>4314082239 mod 65536 = 43967\<close>.
\<close>

theorem prepareTransaction_reference_block_witness:
  "GetDynamicGlobalProperties sample_benv = Inr sample_dgp \<and>
   prepareTransaction_head sample_benv [''vote''] =
     Inr \<lparr>RefBlockNum = 43981, RefBlockPrefix = 1,
          Expiration = Some \<lparr>instant = 1700000600000000000, loc = Local\<rparr>,
          Operations = [''vote''], Extensions = None, Signatures = []\<rparr> \<and>
   (43981 :: nat) = unat (HeadBlockNumber sample_dgp) mod 65536 \<and>
   transaction_RefBlockPrefix sample_benv (HeadBlockId sample_dgp) = Inr 1 \<and>
   prepareTransaction_lib sample_benv [''vote''] =
     Inr \<lparr>RefBlockNum = 43967, RefBlockPrefix = 2,
          Expiration = Some \<lparr>instant = 1700000600000000000, loc = UTC\<rparr>,
          Operations = [''vote''], Extensions = Some [], Signatures = []\<rparr> \<and>
   GetBlock sample_benv (unat (LastIrreversibleBlockNum sample_dgp))
     = Inr \<lparr>Previous = ''0123abbf02000000bbbbbbbbbbbbbbbbbbbbbbbb''\<rparr> \<and>
   (43967 :: int) = (int (unat (LastIrreversibleBlockNum sample_dgp)) - 1) mod 65536 \<and>
   transaction_RefBlockPrefix sample_benv ''0123abbf02000000bbbbbbbbbbbbbbbbbbbbbbbb'' = Inr 2 \<and>
   GetDynamicGlobalProperties sample_benv_wide
     = Inr (sample_dgp\<lparr>LastIrreversibleBlockNum := 0x10123ABC0\<rparr>) \<and>
   GetBlock sample_benv_wide 4314082240
     = Inr \<lparr>Previous = ''0123abbf02000000bbbbbbbbbbbbbbbbbbbbbbbb''\<rparr> \<and>
   prepareTransaction_lib sample_benv_wide [''vote''] =
     Inr \<lparr>RefBlockNum = 43967, RefBlockPrefix = 2,
          Expiration = Some \<lparr>instant = 1700000600000000000, loc = UTC\<rparr>,
          Operations = [''vote''], Extensions = Some [], Signatures = []\<rparr> \<and>
   (43967 :: int) = (4314082240 - 1) mod 65536"
proof -
  let ?th = "\<lparr>RefBlockNum = 43981, RefBlockPrefix = 1,
          Expiration = Some \<lparr>instant = 1700000600000000000, loc = Local\<rparr>,
          Operations = [''vote''], Extensions = None, Signatures = []\<rparr> :: string Transaction"
  let ?tl = "\<lparr>RefBlockNum = 43967, RefBlockPrefix = 2,
          Expiration = Some \<lparr>instant = 1700000600000000000, loc = UTC\<rparr>,
          Operations = [''vote''], Extensions = Some [], Signatures = []\<rparr> :: string Transaction"
  let ?blk = "\<lparr>Previous = ''0123abbf02000000bbbbbbbbbbbbbbbbbbbbbbbb''\<rparr>"
  have g: "GetDynamicGlobalProperties sample_benv = Inr sample_dgp"
    by (simp add: sample_benv_def)
  have b: "GetBlock sample_benv (unat (LastIrreversibleBlockNum sample_dgp)) = Inr ?blk"
    by (simp add: sample_benv_def sample_dgp_def)
  have gw: "GetDynamicGlobalProperties sample_benv_wide
     = Inr (sample_dgp\<lparr>LastIrreversibleBlockNum := 0x10123ABC0\<rparr>)"
    by (simp add: sample_benv_wide_def)
  have uw: "unat (LastIrreversibleBlockNum (sample_dgp\<lparr>LastIrreversibleBlockNum := 0x10123ABC0\<rparr>))
              = 4314082240"
    by simp
  have bw: "GetBlock sample_benv_wide 4314082240 = Inr ?blk"
    by (simp add: sample_benv_wide_def)
  note w = prepareTransaction_reference_block [OF g, where ops = "[''vote'']"
      and tx = ?th and tx' = ?tl and block = ?blk]
  note ww = prepareTransaction_reference_block [OF gw, where ops = "[''vote'']"
      and tx = ?th and tx' = ?tl and block = ?blk]
  note wh = w [THEN conjunct1, THEN mp, OF sample_head]
  note wl = w [THEN conjunct2, THEN mp, OF conjI [OF sample_lib b]]
  note wwl = ww [THEN conjunct2, THEN mp, OF conjI [OF sample_lib_wide bw [folded uw]]]
  have 1: "(43981 :: nat) = unat (HeadBlockNumber sample_dgp) mod 65536"
    using wh [THEN conjunct2, THEN conjunct1] by simp
  have 2: "transaction_RefBlockPrefix sample_benv (HeadBlockId sample_dgp) = Inr 1"
    using wh [THEN conjunct2, THEN conjunct2] by simp
  have 3: "(43967 :: int) = (int (unat (LastIrreversibleBlockNum sample_dgp)) - 1) mod 65536"
    using wl [THEN conjunct2, THEN conjunct1] by simp
  have 4: "transaction_RefBlockPrefix sample_benv ''0123abbf02000000bbbbbbbbbbbbbbbbbbbbbbbb''
              = Inr 2"
    using wl [THEN conjunct2, THEN conjunct2] by simp
  have 5: "(43967 :: int) = (4314082240 - 1) mod 65536"
    using wwl [THEN conjunct2, THEN conjunct1] unfolding uw by simp
  show ?thesis
    by (intro conjI) (rule g sample_head 1 2 sample_lib b 3 4 gw bw sample_lib_wide 5)+
qed

text \<open>
  C9 as stated fails. When the block at the last irreversible block number comes back with
  an empty \<open>previous\<close>, no prefix can be derived from that id, and the preparation still
  succeeds, with the all-zero prefix of the fallback id.
\<close>

theorem prepareTransaction_lib_fallback_counterexample:
  "GetDynamicGlobalProperties sample_benv_no_previous = Inr sample_dgp \<and>
   GetBlock sample_benv_no_previous (unat (LastIrreversibleBlockNum sample_dgp))
     = Inr \<lparr>Previous = []\<rparr> \<and>
   transaction_RefBlockPrefix sample_benv_no_previous [] = Inl ''invalid block ID'' \<and>
   prepareTransaction_lib sample_benv_no_previous [''vote''] =
     Inr \<lparr>RefBlockNum = 43967, RefBlockPrefix = 0,
          Expiration = Some \<lparr>instant = 1700000600000000000, loc = UTC\<rparr>,
          Operations = [''vote''], Extensions = Some [], Signatures = []\<rparr>"
  by (simp add: sample_lib_no_previous)
    (simp add: sample_benv_no_previous_def sample_benv_def sample_prefix_empty)

end
